theory Spec2Isabelle
  imports Complex_Main
begin

section \<open>Values of the program\<close>

text \<open>
  The program is one Python script, \<^verbatim>\<open>app.py\<close>: two adapter functions and a top-level
  block that the view framework re-executes on every user interaction.

  A Python \<^verbatim>\<open>str\<close> is a sequence of Unicode code points, modelled as a list of naturals;
  \<^verbatim>\<open>bytes\<close> are a list of 8-bit characters. \<open>py\<close> turns an ASCII literal into a
  Python string.
\<close>

type_synonym py_str = "nat list"
type_synonym bytes = "char list"

definition py :: "string \<Rightarrow> py_str" where
  "py s = map of_char s"

text \<open>
  The values that \<^verbatim>\<open>json.loads\<close> produces and that the session state holds. A
  \<^verbatim>\<open>dict\<close> keeps its insertion order, so it is an association list. \<open>PyFloat m e\<close>
  stands for the float \<open>m * 2 ^ e\<close>.
\<close>

datatype py_value =
    PyNone
  | PyBool bool
  | PyInt int
  | PyFloat int int
  | PyStr py_str
  | PyList "py_value list"
  | PyDict "(py_str \<times> py_value) list"

text \<open>
  Failures are instances of Python's \<^verbatim>\<open>Exception\<close>, each with the text \<^verbatim>\<open>str(e)\<close>.
  The classes the script names or can raise itself have a constructor of their own;
  \<open>OtherException\<close> is any other instance of \<^verbatim>\<open>Exception\<close> (network, quota,
  authentication, image decoding, permissions). Signals outside \<^verbatim>\<open>Exception\<close>
  (interrupts, the framework's own control flow) are not failures of a call and are not
  modelled.
\<close>

datatype py_exception =
    JSONDecodeError py_str
  | FileNotFoundError py_str
  | KeyError py_str
  | TypeError py_str
  | AttributeError py_str
  | OtherException py_str

fun str_of_exception :: "py_exception \<Rightarrow> py_str" where
  "str_of_exception (JSONDecodeError m) = m"
| "str_of_exception (FileNotFoundError m) = m"
| "str_of_exception (KeyError m) = m"
| "str_of_exception (TypeError m) = m"
| "str_of_exception (AttributeError m) = m"
| "str_of_exception (OtherException m) = m"

text \<open>
  What a call or a pass of the script does that is visible outside it: what it shows to
  the user, and the requests it sends to the two remote services. The message texts of
  the source are Chinese literals; each is a constructor here, with the line of
  \<^verbatim>\<open>app.py\<close> that emits it, and carries the interpolated part of the f-string.
  Titles, subheaders, style sheets, containers, columns and spinners only lay the page
  out and are left out.
\<close>

datatype ui_text =
    Tts_failed py_str            \<comment> \<open>line 55, with \<^verbatim>\<open>str(e)\<close>\<close>
  | Bad_response_format          \<comment> \<open>line 93\<close>
  | Json_unparseable             \<comment> \<open>line 96\<close>
  | Analysis_failed py_str       \<comment> \<open>line 100, with \<^verbatim>\<open>str(e)\<close>\<close>
  | No_pronunciation py_str      \<comment> \<open>line 166, with the formatted english name\<close>
  | Click_analyze_hint           \<comment> \<open>line 170\<close>
  | Audio_not_found              \<comment> \<open>line 208\<close>
  | Audio_playback_failed py_str \<comment> \<open>line 210, with \<^verbatim>\<open>str(e)\<close>\<close>

datatype audio_format = Audio_mp3 | Audio_wav

datatype image = Image bytes

datatype ssml_voice_gender = FEMALE | MALE | NEUTRAL
datatype audio_encoding = MP3 | LINEAR16 | OGG_OPUS

record voice_selection_params =
  language_code :: py_str
  name :: py_str
  ssml_gender :: ssml_voice_gender

record audio_config =
  audio_encoding :: audio_encoding
  speaking_rate :: rat
  pitch :: rat

record synthesis_request =
  synthesis_input :: py_value
  voice :: voice_selection_params
  audio_config :: audio_config

datatype event =
    St_error ui_text
  | St_info ui_text
  | St_image bytes
  | St_markdown py_str
  | St_button py_str "py_str option"   \<comment> \<open>label and \<^verbatim>\<open>key\<close>\<close>
  | St_audio bytes audio_format
  | St_chat_message py_value py_value  \<comment> \<open>role and text\<close>
  | St_write py_value
  | Vision_call image                  \<comment> \<open>\<^verbatim>\<open>model.generate_content\<close>, line 82\<close>
  | Tts_call synthesis_request         \<comment> \<open>the bundle of lines 28 to 49\<close>

fun errors_shown :: "event list \<Rightarrow> ui_text list" where
  "errors_shown [] = []"
| "errors_shown (St_error m # evs) = m # errors_shown evs"
| "errors_shown (_ # evs) = errors_shown evs"

section \<open>Strings: strip, startswith, endswith\<close>

text \<open>
  \<^verbatim>\<open>str.strip()\<close> with no argument removes leading and trailing whitespace; the
  whitespace code points are those of CPython's \<^verbatim>\<open>str.isspace\<close>.
\<close>

definition isspace :: "nat \<Rightarrow> bool" where
  "isspace c \<longleftrightarrow>
     (9 \<le> c \<and> c \<le> 13) \<or> (28 \<le> c \<and> c \<le> 32) \<or> c = 133 \<or> c = 160 \<or> c = 5760 \<or>
     (8192 \<le> c \<and> c \<le> 8202) \<or> c = 8232 \<or> c = 8233 \<or> c = 8239 \<or> c = 8287 \<or> c = 12288"

definition strip :: "py_str \<Rightarrow> py_str" where
  "strip s = rev (dropWhile isspace (rev (dropWhile isspace s)))"

definition startswith :: "py_str \<Rightarrow> py_str \<Rightarrow> bool" where
  "startswith s p \<longleftrightarrow> take (length p) s = p"

definition endswith :: "py_str \<Rightarrow> py_str \<Rightarrow> bool" where
  "endswith s p \<longleftrightarrow> length p \<le> length s \<and> drop (length s - length p) s = p"

section \<open>External services\<close>

text \<open>
  The libraries and remote services the script calls are parameters of the model. Each
  call either returns (\<open>Inr\<close>) or raises (\<open>Inl\<close>).
  \<^item> \<open>Image_open\<close>: \<^verbatim>\<open>Image.open(io.BytesIO(image_bytes))\<close>;
  \<^item> \<open>generate_content\<close>: \<^verbatim>\<open>model.generate_content([prompt, image])\<close> on the
    \<^verbatim>\<open>gemini-pro-vision\<close> model; the prompt is a constant of the source, so the call is
    a function of the image;
  \<^item> \<open>json_loads\<close>: \<^verbatim>\<open>json.loads\<close>;
  \<^item> \<open>TextToSpeechClient\<close>: the constructor of the synthesis client;
  \<^item> \<open>synthesize_speech\<close>: the synthesis library on the bundle of lines 28 to 49
    (building the three request objects, then \<^verbatim>\<open>client.synthesize_speech\<close>), returning
    \<^verbatim>\<open>response.audio_content\<close>;
  \<^item> \<open>builtin_str\<close>: Python's \<^verbatim>\<open>str()\<close> on a value that is not a string, as an
    f-string applies it.
  The calls into the view framework (\<^verbatim>\<open>st.error\<close>, \<^verbatim>\<open>st.audio\<close>, ...) are taken to
  return.
\<close>

text \<open>A model response; reading its \<^verbatim>\<open>.text\<close> property can raise.\<close>

datatype response = Response "py_exception + py_str"

fun text_of :: "response \<Rightarrow> py_exception + py_str" where
  "text_of (Response t) = t"

datatype tts_client = Client

record services =
  Image_open :: "bytes \<Rightarrow> py_exception + image"
  generate_content :: "image \<Rightarrow> py_exception + response"
  json_loads :: "py_str \<Rightarrow> py_exception + py_value"
  TextToSpeechClient :: "py_exception + tts_client"
  synthesize_speech :: "tts_client \<Rightarrow> synthesis_request \<Rightarrow> py_exception + bytes"
  builtin_str :: "py_value \<Rightarrow> py_str"

section \<open>The speech synthesis adapter\<close>

text \<open>
  A call of an adapter ends by returning a value or by raising, and has produced a list
  of events by then.
\<close>

type_synonym 'a run = "(py_exception + 'a) \<times> event list"

text \<open>Lines 28 to 42: the request is the text and a constant voice and audio format.\<close>

definition build_request :: "py_value \<Rightarrow> synthesis_request" where
  "build_request text_to_speak =
     \<lparr>synthesis_input = text_to_speak,
      voice = \<lparr>language_code = py ''en-US'', name = py ''en-US-Wavenet-F'',
               ssml_gender = FEMALE\<rparr>,
      audio_config = \<lparr>audio_encoding = MP3, speaking_rate = 9 / 10, pitch = 0\<rparr>\<rparr>"

text \<open>
  Lines 23 to 56. Everything is inside one \<^verbatim>\<open>try\<close> whose handler catches every
  \<^verbatim>\<open>Exception\<close>, shows the message of line 55 and returns \<^verbatim>\<open>None\<close>.
\<close>

definition get_tts_audio :: "services \<Rightarrow> py_value \<Rightarrow> bytes option run" where
  "get_tts_audio sv text_to_speak =
     (let attempt =
        (case TextToSpeechClient sv of
           Inl e \<Rightarrow> (Inl e, [])
         | Inr client \<Rightarrow>
             (let request = build_request text_to_speak in
              case synthesize_speech sv client request of
                Inl e \<Rightarrow> (Inl e, [Tts_call request])
              | Inr audio_content \<Rightarrow> (Inr (Some audio_content), [Tts_call request])))
      in case attempt of
           (Inl e, evs) \<Rightarrow> (Inr None, evs @ [St_error (Tts_failed (str_of_exception e))])
         | _ \<Rightarrow> attempt)"

section \<open>The image analysis adapter\<close>

text \<open>
  Lines 85 to 97, the inner \<^verbatim>\<open>try\<close>: read and trim the text, test the brackets, parse.
  Its handler catches \<^verbatim>\<open>json.JSONDecodeError\<close> only; any other exception goes on to
  the outer handler.
\<close>

definition parse_response :: "services \<Rightarrow> response \<Rightarrow> py_value run" where
  "parse_response sv response =
     (let attempt =
        (case text_of response of
           Inl e \<Rightarrow> (Inl e, [])
         | Inr t \<Rightarrow>
             (let response_text = strip t in
              if startswith response_text (py ''['') \<and> endswith response_text (py '']'')
              then (case json_loads sv response_text of
                      Inl e \<Rightarrow> (Inl e, [])
                    | Inr objects_list \<Rightarrow> (Inr objects_list, []))
              else (Inr (PyList []), [St_error Bad_response_format])))
      in case attempt of
           (Inl (JSONDecodeError m), evs) \<Rightarrow> (Inr (PyList []), evs @ [St_error Json_unparseable])
         | _ \<Rightarrow> attempt)"

text \<open>
  Lines 68 to 101, the outer \<^verbatim>\<open>try\<close>: decode the image, call the model, parse the
  response. Its handler catches every \<^verbatim>\<open>Exception\<close>.
\<close>

definition analyze_image_for_words :: "services \<Rightarrow> bytes \<Rightarrow> py_value run" where
  "analyze_image_for_words sv image_bytes =
     (let attempt =
        (case Image_open sv image_bytes of
           Inl e \<Rightarrow> (Inl e, [])
         | Inr img \<Rightarrow>
             (case generate_content sv img of
                Inl e \<Rightarrow> (Inl e, [Vision_call img])
              | Inr response \<Rightarrow>
                  (case parse_response sv response of
                     (r, evs) \<Rightarrow> (r, Vision_call img # evs))))
      in case attempt of
           (Inl e, evs) \<Rightarrow>
             (Inr (PyList []), evs @ [St_error (Analysis_failed (str_of_exception e))])
         | _ \<Rightarrow> attempt)"

text \<open>
  Vocabulary for the adapter's properties: the test of line 89 on a trimmed text; the
  model having answered with the text \<open>t\<close>; and the record of the docstring (lines 65
  and 66), a dictionary holding an english and a chinese name.
\<close>

definition bracketed :: "py_str \<Rightarrow> bool" where
  "bracketed s \<longleftrightarrow> startswith s (py ''['') \<and> endswith s (py '']'')"

definition model_returns :: "services \<Rightarrow> bytes \<Rightarrow> image \<Rightarrow> py_str \<Rightarrow> bool" where
  "model_returns sv image_bytes img t \<longleftrightarrow>
     Image_open sv image_bytes = Inr img \<and>
     (case generate_content sv img of
        Inl e \<Rightarrow> False
      | Inr response \<Rightarrow> text_of response = Inr t)"

fun well_formed_object :: "py_value \<Rightarrow> bool" where
  "well_formed_object (PyDict kvs) =
     (case (map_of kvs (py ''english_name''), map_of kvs (py ''chinese_name'')) of
        (Some (PyStr en), Some (PyStr zh)) \<Rightarrow> True
      | _ \<Rightarrow> False)"
| "well_formed_object _ = False"

definition detected_object :: "py_str \<Rightarrow> py_str \<Rightarrow> py_value" where
  "detected_object en zh =
     PyDict [(py ''english_name'', PyStr en), (py ''chinese_name'', PyStr zh)]"

section \<open>Session state, widgets and files\<close>

text \<open>
  \<^verbatim>\<open>st.session_state\<close> has six fields. A field is absent (\<open>None\<close>) until the script
  assigns it; the type of each field is that of the values the script assigns. The
  current image and the audio file name can hold Python's \<^verbatim>\<open>None\<close>, the inner
  option. The buffer that \<^verbatim>\<open>st.camera_input\<close> returns is identified with the bytes
  its \<^verbatim>\<open>getvalue()\<close> reads.
\<close>

record session_state =
  conversation :: "py_value list option"
  feedback_log :: "py_value list option"
  current_image :: "bytes option option"
  audio_filename :: "py_str option option"
  is_recording :: "bool option"
  analyzed_objects :: "py_value option"

text \<open>
  What the widgets return in one pass of the script: the camera's buffer, whether the
  analyze button was clicked, and the key of the pronounce button that was clicked.
  \<^verbatim>\<open>st.button\<close> with a key returns true in the pass its click starts. The
  framework refuses a second widget with a key already used in the pass: the call
  raises, and the pass stops there. The recording buttons, the text input and the send
  button are discarded by the script.
\<close>

record widgets =
  camera_input :: "bytes option"
  analyze_button :: bool
  pronounce_button :: "py_str option"

text \<open>
  The local files, by path. A path has an entry when \<^verbatim>\<open>os.path.exists\<close> holds for it.
  \<open>reading\<close> is what \<^verbatim>\<open>open(path, 'rb')\<close> followed by \<^verbatim>\<open>read()\<close> does on the
  entry: it returns the bytes or raises (no permission, a directory, a file that went
  away after the test). \<open>removable\<close> says whether \<^verbatim>\<open>os.remove\<close> succeeds, which
  deletes the entry; otherwise it raises and the files stay as they are.
\<close>

record file_entry =
  reading :: "py_exception + bytes"
  removable :: bool

type_synonym files = "py_str \<rightharpoonup> file_entry"

record world =
  session :: session_state
  files :: files

section \<open>The script\<close>

text \<open>
  A pass of the script, or of one block of it, ends by running to its end, by
  \<^verbatim>\<open>st.rerun()\<close>, by an exception of the script's own operations that nothing
  catches, or by the framework refusing a widget key that the pass has used already
  (it raises, and nothing catches that either).
\<close>

datatype stop = Completed | Rerun | Uncaught py_exception | Duplicate_key py_str

type_synonym 's pass = "'s \<times> event list \<times> stop"

definition then_block :: "'s pass \<Rightarrow> ('s \<Rightarrow> 's pass) \<Rightarrow> 's pass" where
  "then_block p f =
     (case p of
        (s, evs, Completed) \<Rightarrow> (case f s of (s', evs', st) \<Rightarrow> (s', evs @ evs', st))
      | _ \<Rightarrow> p)"

subsection \<open>Lines 106 to 117: initialisation\<close>

definition init_session_state :: "session_state \<Rightarrow> session_state" where
  "init_session_state s0 =
     (let s1 = (if conversation s0 = None then s0\<lparr>conversation := Some []\<rparr> else s0);
          s2 = (if feedback_log s1 = None then s1\<lparr>feedback_log := Some []\<rparr> else s1);
          s3 = (if current_image s2 = None then s2\<lparr>current_image := Some None\<rparr> else s2);
          s4 = (if audio_filename s3 = None then s3\<lparr>audio_filename := Some None\<rparr> else s3);
          s5 = (if is_recording s4 = None then s4\<lparr>is_recording := Some False\<rparr> else s4);
          s6 = (if analyzed_objects s5 = None then s5\<lparr>analyzed_objects := Some (PyList [])\<rparr>
                else s5)
      in s6)"

text \<open>The state of a session before its first pass: no field is there.\<close>

definition empty_session_state :: session_state where
  "empty_session_state =
     \<lparr>conversation = None, feedback_log = None, current_image = None,
      audio_filename = None, is_recording = None, analyzed_objects = None\<rparr>"

subsection \<open>Python's dynamic operations on values\<close>

text \<open>Truth value, iteration, subscript by a string, and \<^verbatim>\<open>{...}\<close> in an f-string.\<close>

fun truthy :: "py_value \<Rightarrow> bool" where
  "truthy PyNone = False"
| "truthy (PyBool b) = b"
| "truthy (PyInt i) = (i \<noteq> 0)"
| "truthy (PyFloat m e) = (m \<noteq> 0)"
| "truthy (PyStr s) = (s \<noteq> [])"
| "truthy (PyList xs) = (xs \<noteq> [])"
| "truthy (PyDict kvs) = (kvs \<noteq> [])"

fun iterate :: "py_value \<Rightarrow> py_exception + py_value list" where
  "iterate (PyList xs) = Inr xs"
| "iterate (PyDict kvs) = Inr (map (\<lambda>kv. PyStr (fst kv)) kvs)"
| "iterate (PyStr s) = Inr (map (\<lambda>c. PyStr [c]) s)"
| "iterate _ = Inl (TypeError (py ''object is not iterable''))"

fun subscript :: "py_value \<Rightarrow> py_str \<Rightarrow> py_exception + py_value" where
  "subscript (PyDict kvs) k =
     (case map_of kvs k of None \<Rightarrow> Inl (KeyError k) | Some v \<Rightarrow> Inr v)"
| "subscript (PyList xs) k = Inl (TypeError (py ''list indices must be integers or slices, not str''))"
| "subscript (PyStr s) k = Inl (TypeError (py ''string indices must be integers''))"
| "subscript _ k = Inl (TypeError (py ''object is not subscriptable''))"

definition format_value :: "services \<Rightarrow> py_value \<Rightarrow> py_str" where
  "format_value sv v = (case v of PyStr s \<Rightarrow> s | _ \<Rightarrow> builtin_str sv v)"

subsection \<open>Lines 146 to 168: one row per detected object\<close>

text \<open>The key of line 157: \<^verbatim>\<open>f"pronounce_{obj['english_name']}"\<close>.\<close>

definition pronounce_key :: "services \<Rightarrow> py_value \<Rightarrow> py_exception + py_str" where
  "pronounce_key sv obj =
     (case subscript obj (py ''english_name'') of
        Inl e \<Rightarrow> Inl e
      | Inr english_name \<Rightarrow> Inr (py ''pronounce_'' @ format_value sv english_name))"

text \<open>Lines 159 to 166, when the button of a row was clicked.\<close>

definition pronounce :: "services \<Rightarrow> py_value \<Rightarrow> event list" where
  "pronounce sv english_name =
     (case get_tts_audio sv english_name of
        (Inr (Some audio_bytes), evs) \<Rightarrow>
          if audio_bytes \<noteq> [] then evs @ [St_audio audio_bytes Audio_mp3]
          else evs @ [St_error (No_pronunciation (format_value sv english_name))]
      | (_, evs) \<Rightarrow> evs @ [St_error (No_pronunciation (format_value sv english_name))])"

definition speaker_label :: py_str where
  "speaker_label = [128266]"

text \<open>
  One row, lines 148 to 168: the two names, then the button with the key of line 157,
  which the framework accepts only when no earlier row of the pass has used it.
\<close>

definition render_row ::
  "services \<Rightarrow> widgets \<Rightarrow> py_str list \<Rightarrow> py_value \<Rightarrow> event list \<times> stop" where
  "render_row sv w used obj =
     (case subscript obj (py ''english_name'') of
        Inl e \<Rightarrow> ([], Uncaught e)
      | Inr english_name \<Rightarrow>
          (let evs1 = [St_markdown (py ''**'' @ format_value sv english_name @ py ''**'')] in
           case subscript obj (py ''chinese_name'') of
             Inl e \<Rightarrow> (evs1, Uncaught e)
           | Inr chinese_name \<Rightarrow>
               (let evs2 = evs1 @ [St_markdown (format_value sv chinese_name)] in
                case pronounce_key sv obj of
                  Inl e \<Rightarrow> (evs2, Uncaught e)
                | Inr key \<Rightarrow>
                    if key \<in> set used then (evs2, Duplicate_key key)
                    else (let evs3 = evs2 @ [St_button speaker_label (Some key)];
                              evs4 = (if pronounce_button w = Some key
                                      then pronounce sv english_name else [])
                          in (evs3 @ evs4 @ [St_markdown (py ''---'')], Completed)))))"

text \<open>The keys in use after a row: its own key is added.\<close>

definition keys_after :: "services \<Rightarrow> py_str list \<Rightarrow> py_value \<Rightarrow> py_str list" where
  "keys_after sv used obj =
     (case pronounce_key sv obj of Inl e \<Rightarrow> used | Inr key \<Rightarrow> key # used)"

fun render_rows ::
  "services \<Rightarrow> widgets \<Rightarrow> py_str list \<Rightarrow> py_value list \<Rightarrow> event list \<times> stop" where
  "render_rows sv w used [] = ([], Completed)"
| "render_rows sv w used (obj # objs) =
     (case render_row sv w used obj of
        (evs, Completed) \<Rightarrow>
          (case render_rows sv w (keys_after sv used obj) objs of
             (evs', st) \<Rightarrow> (evs @ evs', st))
      | (evs, st) \<Rightarrow> (evs, st))"

text \<open>Lines 141 to 170: the analysis results, or the hint to click the button.\<close>

definition render_analysis :: "services \<Rightarrow> widgets \<Rightarrow> session_state \<Rightarrow> event list \<times> stop" where
  "render_analysis sv w s =
     (case analyzed_objects s of
        None \<Rightarrow> ([], Uncaught (AttributeError (py ''analyzed_objects'')))
      | Some objs \<Rightarrow>
          if truthy objs
          then (case iterate objs of
                  Inl e \<Rightarrow> ([], Uncaught e)
                | Inr items \<Rightarrow> render_rows sv w [] items)
          else ([St_info Click_analyze_hint], Completed))"

subsection \<open>Lines 124 to 170: capture and analysis\<close>

definition analyze_label :: py_str where
  "analyze_label = py ''Analyze Photo for Words''"

definition capture_block :: "services \<Rightarrow> widgets \<Rightarrow> session_state \<Rightarrow> session_state pass" where
  "capture_block sv w s =
     (case camera_input w of
        None \<Rightarrow> (s, [], Completed)
      | Some img_file_buffer \<Rightarrow>
          (let s1 = s\<lparr>current_image := Some (Some img_file_buffer)\<rparr>;
               evs1 = [St_image img_file_buffer, St_button analyze_label None];
               clicked =
                 (if analyze_button w
                  then (case current_image s1 of Some (Some image_bytes) \<Rightarrow> Some image_bytes
                        | _ \<Rightarrow> None)
                  else None)
           in case clicked of
                Some image_bytes \<Rightarrow>
                  (case analyze_image_for_words sv image_bytes of
                     (Inr analysis_results, evs) \<Rightarrow>
                       (s1\<lparr>analyzed_objects := Some analysis_results\<rparr>, evs1 @ evs, Rerun)
                   | (Inl e, evs) \<Rightarrow> (s1, evs1 @ evs, Uncaught e))
              | None \<Rightarrow>
                  (case render_analysis sv w s1 of (evs, st) \<Rightarrow> (s1, evs1 @ evs, st))))"

subsection \<open>Lines 189 to 191 and 236 to 237: conversation and feedback\<close>

fun render_conversation :: "py_value list \<Rightarrow> event list \<times> stop" where
  "render_conversation [] = ([], Completed)"
| "render_conversation (message # messages) =
     (case subscript message (py ''role'') of
        Inl e \<Rightarrow> ([], Uncaught e)
      | Inr role \<Rightarrow>
          (case subscript message (py ''text'') of
             Inl e \<Rightarrow> ([], Uncaught e)
           | Inr txt \<Rightarrow>
               (case render_conversation messages of
                  (evs, st) \<Rightarrow> (St_chat_message role txt # evs, st))))"

definition conversation_block :: "session_state \<Rightarrow> event list \<times> stop" where
  "conversation_block s =
     (case conversation s of
        None \<Rightarrow> ([], Uncaught (AttributeError (py ''conversation'')))
      | Some messages \<Rightarrow> render_conversation messages)"

definition feedback_block :: "session_state \<Rightarrow> event list \<times> stop" where
  "feedback_block s =
     (case feedback_log s of
        None \<Rightarrow> ([], Uncaught (AttributeError (py ''feedback_log'')))
      | Some entries \<Rightarrow> (map St_write entries, Completed))"

subsection \<open>Lines 202 to 216: playback of the stored audio file\<close>

text \<open>
  The guard of line 202 needs a name that is neither \<^verbatim>\<open>None\<close> nor empty, and an
  existing file. The bytes read are handed to the player; the handler of line 207 shows
  its message for a \<^verbatim>\<open>FileNotFoundError\<close>, the handler of line 209 shows the text of
  any other exception. The \<^verbatim>\<open>finally\<close> clause then removes the file, and its bare
  \<^verbatim>\<open>except\<close> discards a failure to do so.
\<close>

definition audio_block :: "world \<Rightarrow> world pass" where
  "audio_block wd =
     (case audio_filename (session wd) of
        None \<Rightarrow> (wd, [], Uncaught (AttributeError (py ''audio_filename'')))
      | Some None \<Rightarrow> (wd, [], Completed)
      | Some (Some path) \<Rightarrow>
          (case (if path \<noteq> [] then files wd path else None) of
             None \<Rightarrow> (wd, [], Completed)
           | Some f \<Rightarrow>
               (let evs =
                      (case reading f of
                         Inr audio_bytes \<Rightarrow> [St_audio audio_bytes Audio_wav]
                       | Inl (FileNotFoundError m) \<Rightarrow> [St_error Audio_not_found]
                       | Inl e \<Rightarrow> [St_error (Audio_playback_failed (str_of_exception e))]);
                    fs' = (if removable f then (files wd)(path := None) else files wd)
                in (wd\<lparr>files := fs'\<rparr>, evs, Completed))))"

subsection \<open>The whole script, and an interaction\<close>

definition on_session :: "(session_state \<Rightarrow> session_state pass) \<Rightarrow> world \<Rightarrow> world pass" where
  "on_session f wd = (case f (session wd) of (s, evs, st) \<Rightarrow> (wd\<lparr>session := s\<rparr>, evs, st))"

definition on_view :: "(session_state \<Rightarrow> event list \<times> stop) \<Rightarrow> world \<Rightarrow> world pass" where
  "on_view f wd = (case f (session wd) of (evs, st) \<Rightarrow> (wd, evs, st))"

definition script :: "services \<Rightarrow> widgets \<Rightarrow> world \<Rightarrow> world pass" where
  "script sv w wd =
     then_block (then_block (then_block (then_block
       (wd\<lparr>session := init_session_state (session wd)\<rparr>, [], Completed)
       (on_session (capture_block sv w)))
       (on_view conversation_block))
       audio_block)
       (on_view feedback_block)"

text \<open>
  One interaction of the user: the pass it starts and, when that pass ends in
  \<^verbatim>\<open>st.rerun()\<close>, the pass that follows, in which the camera still holds its photo
  and no button is clicked.
\<close>

definition interaction :: "services \<Rightarrow> widgets \<Rightarrow> world \<Rightarrow> world pass" where
  "interaction sv w wd =
     (case script sv w wd of
        (wd1, evs1, Rerun) \<Rightarrow>
          (case script sv (w\<lparr>analyze_button := False, pronounce_button := None\<rparr>) wd1 of
             (wd2, evs2, st) \<Rightarrow> (wd2, evs1 @ evs2, st))
      | p \<Rightarrow> p)"

section \<open>Reading the events of a call\<close>

fun tts_calls :: "event list \<Rightarrow> synthesis_request list" where
  "tts_calls [] = []"
| "tts_calls (Tts_call r # evs) = r # tts_calls evs"
| "tts_calls (_ # evs) = tts_calls evs"

fun button_keys :: "event list \<Rightarrow> py_str list" where
  "button_keys [] = []"
| "button_keys (St_button label (Some key) # evs) = key # button_keys evs"
| "button_keys (_ # evs) = button_keys evs"

text \<open>
  A batch of well-formed records, given by the two names of each, and the keys of line
  157 for its records, in order.
\<close>

definition batch :: "(py_str \<times> py_str) list \<Rightarrow> py_value list" where
  "batch records = map (\<lambda>(en, zh). detected_object en zh) records"

definition keys_of :: "(py_str \<times> py_str) list \<Rightarrow> py_str list" where
  "keys_of records = map (\<lambda>(en, zh). py ''pronounce_'' @ en) records"

text \<open>
  A call of the analysis adapter in which the model answered and the answer is
  malformed: its trimmed text fails the test of line 89, or passes it and
  \<^verbatim>\<open>json.loads\<close> raises.
\<close>

definition malformed_response :: "services \<Rightarrow> bytes \<Rightarrow> bool" where
  "malformed_response sv image_bytes \<longleftrightarrow>
     (case Image_open sv image_bytes of
        Inl e \<Rightarrow> False
      | Inr img \<Rightarrow>
          (case generate_content sv img of
             Inl e \<Rightarrow> False
           | Inr response \<Rightarrow>
               (case text_of response of
                  Inl e \<Rightarrow> False
                | Inr t \<Rightarrow>
                    (if bracketed (strip t)
                     then (case json_loads sv (strip t) of Inl e \<Rightarrow> True | Inr v \<Rightarrow> False)
                     else True))))"

section \<open>A concrete scenario\<close>

text \<open>
  Stand-ins for the external services, for the examples below. An empty buffer is not
  an image. The model answers photo A with one record in JSON, surrounded by
  whitespace, and any other photo with the text given as parameter. The decoder knows
  four documents and rejects every other text. The synthesis returns four bytes for a
  non-empty string.
\<close>

definition key_record :: py_value where
  "key_record = detected_object (py ''key'') [38053, 21273]"

definition key_record_text :: py_str where
  \<open>key_record_text =
     py ''[{"english_name": "key", "chinese_name": "'' @ [38053, 21273] @ py ''"}]''\<close>

definition mixed_array_text :: py_str where
  \<open>mixed_array_text = py ''["mug", 7]''\<close>

definition broken_array_text :: py_str where
  \<open>broken_array_text = py ''[{"english_name": ]''\<close>

definition truncated_array_text :: py_str where
  \<open>truncated_array_text = py ''[{"english_name": "key", "chinese_name":''\<close>

definition mug_record :: py_value where
  "mug_record = detected_object (py ''mug'') [39532, 20811, 26479]"

definition other_key_record :: py_value where
  "other_key_record = detected_object (py ''key'') [38190]"

definition four_records_text :: py_str where
  \<open>four_records_text =
     py ''[{"english_name": "mug", "chinese_name": "'' @ [39532, 20811, 26479] @
     py ''"}, {"english_name": "key", "chinese_name": "'' @ [38053, 21273] @
     py ''"}, {"english_name": "key", "chinese_name": "'' @ [38190] @
     py ''"}, {"english_name": "mug", "chinese_name": "'' @ [39532, 20811, 26479] @
     py ''"}]''\<close>

definition scenario_json_loads :: "py_str \<Rightarrow> py_exception + py_value" where
  "scenario_json_loads s =
     (if s = key_record_text then Inr (PyList [key_record])
      else if s = four_records_text
      then Inr (PyList [mug_record, key_record, other_key_record, mug_record])
      else if s = mixed_array_text then Inr (PyList [PyStr (py ''mug''), PyInt 7])
      else if s = py ''[]'' then Inr (PyList [])
      else Inl (JSONDecodeError (py ''Expecting value'')))"

definition photo_A :: bytes where
  "photo_A = ''photo A''"

definition photo_B :: bytes where
  "photo_B = ''photo B''"

definition scenario :: "py_exception + py_str \<Rightarrow> services" where
  "scenario answer =
     \<lparr>Image_open = (\<lambda>b. if b = [] then Inl (OtherException (py ''cannot identify image file''))
                        else Inr (Image b)),
      generate_content = (\<lambda>img. if img = Image photo_A
                               then Inr (Response (Inr (py '' '' @ key_record_text @ [10])))
                               else (case answer of
                                       Inl e \<Rightarrow> Inl e
                                     | Inr t \<Rightarrow> Inr (Response (Inr t)))),
      json_loads = scenario_json_loads,
      TextToSpeechClient = Inr Client,
      synthesize_speech = (\<lambda>c r. case synthesis_input r of
                                    PyStr s \<Rightarrow> if s = [] then Inl (OtherException (py ''empty input''))
                                               else Inr ''ID3 ''
                                  | _ \<Rightarrow> Inl (TypeError (py ''bad argument type''))),
      builtin_str = (\<lambda>v. py ''<value>'')\<rparr>"

definition capture :: "bytes \<Rightarrow> widgets" where
  "capture photo = \<lparr>camera_input = Some photo, analyze_button = False, pronounce_button = None\<rparr>"

definition capture_and_analyze :: "bytes \<Rightarrow> widgets" where
  "capture_and_analyze photo =
     \<lparr>camera_input = Some photo, analyze_button = True, pronounce_button = None\<rparr>"



definition fresh_world :: world where
  "fresh_world = \<lparr>session = empty_session_state, files = Map.empty\<rparr>"

text \<open>The world after photo A was captured and analyzed in a fresh session.\<close>

definition analyzed_A :: world where
  "analyzed_A =
     \<lparr>session =
        \<lparr>conversation = Some [], feedback_log = Some [], current_image = Some (Some photo_A),
         audio_filename = Some None, is_recording = Some False,
         analyzed_objects = Some (PyList [key_record])\<rparr>,
      files = Map.empty\<rparr>"

section \<open>Properties of the image analysis adapter\<close>

subsection \<open>The cases of the parser\<close>

lemma parse_response_bracketed_value:
  assumes "text_of response = Inr t" and "bracketed (strip t)"
    and "json_loads sv (strip t) = Inr v"
  shows "parse_response sv response = (Inr v, [])"
  using assms by (simp add: parse_response_def bracketed_def)

lemma parse_response_unbracketed:
  assumes "text_of response = Inr t" and "\<not> bracketed (strip t)"
  shows "parse_response sv response = (Inr (PyList []), [St_error Bad_response_format])"
  using assms by (auto simp add: parse_response_def bracketed_def)

lemma parse_response_decode_error:
  assumes "text_of response = Inr t" and "bracketed (strip t)"
    and "json_loads sv (strip t) = Inl (JSONDecodeError m)"
  shows "parse_response sv response = (Inr (PyList []), [St_error Json_unparseable])"
  using assms by (simp add: parse_response_def bracketed_def)

lemma parse_response_other_error:
  assumes "text_of response = Inr t" and "bracketed (strip t)"
    and "json_loads sv (strip t) = Inl e" and "\<forall>m. e \<noteq> JSONDecodeError m"
  shows "parse_response sv response = (Inl e, [])"
  using assms by (cases e) (simp_all add: parse_response_def bracketed_def)

lemma analyze_with_response:
  assumes "Image_open sv b = Inr img" and "generate_content sv img = Inr response"
  shows "analyze_image_for_words sv b =
     (case parse_response sv response of
        (Inl e, evs) \<Rightarrow> (Inr (PyList []), Vision_call img # evs @ [St_error (Analysis_failed (str_of_exception e))])
      | (Inr v, evs) \<Rightarrow> (Inr v, Vision_call img # evs))"
  using assms by (simp add: analyze_image_for_words_def split: prod.splits sum.splits)

lemma model_returnsD:
  assumes "model_returns sv b img t"
  obtains response where "Image_open sv b = Inr img" and "generate_content sv img = Inr response"
    and "text_of response = Inr t"
  using assms by (auto simp add: model_returns_def split: sum.splits)

lemma analyze_never_raises: "\<exists>v evs. analyze_image_for_words sv b = (Inr v, evs)"
  by (auto simp add: analyze_image_for_words_def split: sum.splits prod.splits)

lemma malformed_single:
  assumes "malformed_response sv b"
  shows "fst (analyze_image_for_words sv b) = Inr (PyList []) \<and>
         length (errors_shown (snd (analyze_image_for_words sv b))) = 1"
proof -
  from assms obtain img response t where r: "Image_open sv b = Inr img"
    "generate_content sv img = Inr response" "text_of response = Inr t"
    and bad: "\<not> bracketed (strip t) \<or> (bracketed (strip t) \<and> (\<exists>e. json_loads sv (strip t) = Inl e))"
    by (auto simp add: malformed_response_def split: sum.splits if_splits)
  from bad show ?thesis
  proof
    assume "\<not> bracketed (strip t)"
    with r(3) have "parse_response sv response = (Inr (PyList []), [St_error Bad_response_format])"
      by (rule parse_response_unbracketed)
    then show ?thesis using r(1,2) by (simp add: analyze_with_response)
  next
    assume "bracketed (strip t) \<and> (\<exists>e. json_loads sv (strip t) = Inl e)"
    then obtain e where b: "bracketed (strip t)" and e: "json_loads sv (strip t) = Inl e" by blast
    show ?thesis
    proof (cases "\<exists>m. e = JSONDecodeError m")
      case True
      then obtain m where "e = JSONDecodeError m" ..
      with r(3) b e have "parse_response sv response = (Inr (PyList []), [St_error Json_unparseable])"
        by (simp add: parse_response_decode_error)
      then show ?thesis using r(1,2) by (simp add: analyze_with_response)
    next
      case False
      with r(3) b e have "parse_response sv response = (Inl e, [])"
        by (simp add: parse_response_other_error)
      then show ?thesis using r(1,2) by (simp add: analyze_with_response)
    qed
  qed
qed

subsection \<open>The scenario, evaluated\<close>

lemma strip_key_record_text: "strip (py '' '' @ key_record_text @ [10]) = key_record_text"
  by (simp add: strip_def py_def key_record_text_def isspace_def)

lemma strip_mixed_array_text: "strip (py ''  '' @ mixed_array_text) = mixed_array_text"
  by (simp add: strip_def py_def mixed_array_text_def isspace_def)

lemma strip_broken_array_text: "strip broken_array_text = broken_array_text"
  by (simp add: strip_def py_def broken_array_text_def isspace_def)

lemma strip_prose: "strip (py ''Here is the list: []'') = py ''Here is the list: []''"
  by (simp add: strip_def py_def isspace_def)

lemma strip_object_text: \<open>strip (py ''{"english_name": "key"}'') = py ''{"english_name": "key"}''\<close>
  by (simp add: strip_def py_def isspace_def)

lemma bracketed_scenario:
  "bracketed key_record_text" "bracketed mixed_array_text" "bracketed broken_array_text"
  "\<not> bracketed (py ''Here is the list: []'')"
  \<open>\<not> bracketed (py ''{"english_name": "key"}'')\<close>
  by (simp_all add: bracketed_def startswith_def endswith_def py_def key_record_text_def
      mixed_array_text_def broken_array_text_def)

lemma scenario_json_loads_values:
  "scenario_json_loads key_record_text = Inr (PyList [key_record])"
  "scenario_json_loads mixed_array_text = Inr (PyList [PyStr (py ''mug''), PyInt 7])"
  "scenario_json_loads broken_array_text = Inl (JSONDecodeError (py ''Expecting value''))"
  by (simp_all add: scenario_json_loads_def key_record_text_def mixed_array_text_def
      broken_array_text_def four_records_text_def py_def)

lemma strip_four_records_text: "strip ([10] @ four_records_text @ py ''  '') = four_records_text"
  by (simp add: strip_def py_def four_records_text_def isspace_def)

lemma bracketed_four_records_text: "bracketed four_records_text"
  by (simp add: bracketed_def startswith_def endswith_def py_def four_records_text_def)

lemma scenario_json_loads_four_records:
  "scenario_json_loads four_records_text =
     Inr (PyList [mug_record, key_record, other_key_record, mug_record])"
  by (simp add: scenario_json_loads_def key_record_text_def four_records_text_def py_def)

lemma well_formed_four_records:
  "list_all well_formed_object [mug_record, key_record, other_key_record, mug_record]"
  by (simp add: mug_record_def key_record_def other_key_record_def detected_object_def py_def)

lemma four_records_differ:
  "mug_record \<noteq> key_record" "key_record \<noteq> other_key_record"
  by (simp_all add: mug_record_def key_record_def other_key_record_def detected_object_def py_def)

lemma strip_truncated_array_text: "strip truncated_array_text = truncated_array_text"
  by (simp add: strip_def py_def truncated_array_text_def isspace_def)

lemma truncated_array_text_brackets:
  "startswith truncated_array_text (py ''['')" "\<not> bracketed truncated_array_text"
  by (simp_all add: bracketed_def startswith_def endswith_def py_def truncated_array_text_def)

lemma scenario_simps:
  "Image_open (scenario a) b =
     (if b = [] then Inl (OtherException (py ''cannot identify image file'')) else Inr (Image b))"
  "generate_content (scenario a) (Image photo_A) =
     Inr (Response (Inr (py '' '' @ key_record_text @ [10])))"
  "generate_content (scenario a) (Image photo_B) =
     (case a of Inl e \<Rightarrow> Inl e | Inr t \<Rightarrow> Inr (Response (Inr t)))"
  "json_loads (scenario a) = scenario_json_loads"
  "TextToSpeechClient (scenario a) = Inr Client"
  by (simp_all add: scenario_def photo_A_def photo_B_def)

lemma photos_not_empty: "photo_A \<noteq> []" "photo_B \<noteq> []" "photo_A \<noteq> photo_B"
  by (simp_all add: photo_A_def photo_B_def)

lemma model_returns_scenario:
  "model_returns (scenario a) photo_A (Image photo_A) (py '' '' @ key_record_text @ [10])"
  "model_returns (scenario (Inr t)) photo_B (Image photo_B) t"
  by (simp_all add: model_returns_def scenario_simps photos_not_empty)

lemma well_formed_key_record: "list_all well_formed_object [key_record]"
  by (simp add: key_record_def detected_object_def py_def)

lemma malformed_scenario:
  "malformed_response (scenario (Inr (py ''Here is the list: []''))) photo_B"
  "malformed_response (scenario (Inr broken_array_text)) photo_B"
  by (simp_all add: malformed_response_def scenario_simps photos_not_empty strip_prose
      strip_broken_array_text bracketed_scenario scenario_json_loads_values)

subsection \<open>Well-formed, malformed and unvalidated responses\<close>

text \<open>
  C3. When the image decodes and the model answers with a text whose trimmed form is a
  JSON array of \<open>N\<close> well-formed records (being an array text it starts with an opening
  and ends with a closing bracket, and \<^verbatim>\<open>json.loads\<close> reads it as the list
  \<open>records\<close>), \<open>analyze_image_for_words\<close> returns exactly the list \<open>records\<close>: the same
  elements in the same order, nothing sorted, dropped or merged, and no message shown.
\<close>

theorem analyze_returns_records_in_order:
  assumes "model_returns sv image_bytes img t"
    and "bracketed (strip t)"
    and "json_loads sv (strip t) = Inr (PyList records)"
    and "list_all well_formed_object records"
  shows "analyze_image_for_words sv image_bytes = (Inr (PyList records), [Vision_call img])"
proof -
  from assms(1) obtain response where r: "Image_open sv image_bytes = Inr img"
    "generate_content sv img = Inr response" "text_of response = Inr t"
    by (rule model_returnsD)
  have "parse_response sv response = (Inr (PyList records), [])"
    using r(3) assms(2,3) by (rule parse_response_bracketed_value)
  with r(1,2) show ?thesis
    by (simp add: analyze_with_response)
qed

text \<open>
  The theorem at a response of four records, not in alphabetical order, two of them with
  the english name \<^verbatim>\<open>key\<close> and the first repeated as the last: the adapter returns
  the four, in the order of the response.
\<close>

theorem analyze_returns_records_in_order_witness:
  "model_returns (scenario (Inr ([10] @ four_records_text @ py ''  ''))) photo_B (Image photo_B)
     ([10] @ four_records_text @ py ''  '') \<and>
   bracketed (strip ([10] @ four_records_text @ py ''  '')) \<and>
   json_loads (scenario (Inr ([10] @ four_records_text @ py ''  '')))
       (strip ([10] @ four_records_text @ py ''  '')) =
     Inr (PyList [mug_record, key_record, other_key_record, mug_record]) \<and>
   list_all well_formed_object [mug_record, key_record, other_key_record, mug_record] \<and>
   mug_record \<noteq> key_record \<and> key_record \<noteq> other_key_record \<and>
   analyze_image_for_words (scenario (Inr ([10] @ four_records_text @ py ''  ''))) photo_B =
     (Inr (PyList [mug_record, key_record, other_key_record, mug_record]),
      [Vision_call (Image photo_B)])"
proof -
  let ?t = "[10] @ four_records_text @ py ''  ''"
  let ?sv = "scenario (Inr ?t)"
  have m: "model_returns ?sv photo_B (Image photo_B) ?t"
    by (rule model_returns_scenario)
  have b: "bracketed (strip ?t)"
    by (simp only: strip_four_records_text bracketed_four_records_text)
  have j: "json_loads ?sv (strip ?t) =
      Inr (PyList [mug_record, key_record, other_key_record, mug_record])"
    by (simp only: strip_four_records_text scenario_simps scenario_json_loads_four_records)
  note w = well_formed_four_records
  note d = four_records_differ
  from analyze_returns_records_in_order [OF m b j w] m b j w d show ?thesis by simp
qed

text \<open>
  C4. When the model answers with a malformed response (the trimmed text does not start
  with an opening and end with a closing bracket, or it does and \<^verbatim>\<open>json.loads\<close>
  raises), \<open>analyze_image_for_words\<close> returns the empty list and shows exactly one error
  message; it returns, it does not raise. The same holds for each call of any sequence
  of calls with malformed responses.
\<close>

theorem analyze_malformed_response:
  "(malformed_response sv image_bytes \<longrightarrow>
      fst (analyze_image_for_words sv image_bytes) = Inr (PyList []) \<and>
      length (errors_shown (snd (analyze_image_for_words sv image_bytes))) = 1) \<and>
   (list_all (\<lambda>(sv, b). malformed_response sv b) calls \<longrightarrow>
      map (\<lambda>(sv, b). (fst (analyze_image_for_words sv b),
                       length (errors_shown (snd (analyze_image_for_words sv b))))) calls =
      replicate (length calls) (Inr (PyList []), 1))"
proof
  show "malformed_response sv image_bytes \<longrightarrow>
      fst (analyze_image_for_words sv image_bytes) = Inr (PyList []) \<and>
      length (errors_shown (snd (analyze_image_for_words sv image_bytes))) = 1"
    by (simp add: malformed_single)
  show "list_all (\<lambda>(sv, b). malformed_response sv b) calls \<longrightarrow>
      map (\<lambda>(sv, b). (fst (analyze_image_for_words sv b),
                       length (errors_shown (snd (analyze_image_for_words sv b))))) calls =
      replicate (length calls) (Inr (PyList []), 1)"
    by (induction calls) (auto simp add: malformed_single)
qed

theorem analyze_malformed_response_witness:
  "malformed_response (scenario (Inr (py ''Here is the list: []''))) photo_B \<and>
   malformed_response (scenario (Inr broken_array_text)) photo_B \<and>
   fst (analyze_image_for_words (scenario (Inr (py ''Here is the list: []''))) photo_B) = Inr (PyList []) \<and>
   length (errors_shown (snd (analyze_image_for_words (scenario (Inr (py ''Here is the list: []''))) photo_B))) = 1 \<and>
   map (\<lambda>(sv, b). (fst (analyze_image_for_words sv b),
                    length (errors_shown (snd (analyze_image_for_words sv b)))))
     [(scenario (Inr (py ''Here is the list: []'')), photo_B),
      (scenario (Inr broken_array_text), photo_B),
      (scenario (Inr (py ''Here is the list: []'')), photo_B)] =
   [(Inr (PyList []), 1), (Inr (PyList []), 1), (Inr (PyList []), 1)]"
proof -
  let ?p = "scenario (Inr (py ''Here is the list: []''))"
  let ?q = "scenario (Inr broken_array_text)"
  let ?calls = "[(?p, photo_B), (?q, photo_B), (?p, photo_B)]"
  note m = malformed_scenario
  have l: "list_all (\<lambda>(sv, b). malformed_response sv b) ?calls"
    using m by simp
  have r: "replicate (length ?calls) (Inr (PyList []) :: py_exception + py_value, 1::nat) =
      [(Inr (PyList []), 1), (Inr (PyList []), 1), (Inr (PyList []), 1)]"
    by (simp add: numeral_3_eq_3)
  from analyze_malformed_response [of ?p photo_B ?calls] m l
  have "fst (analyze_image_for_words ?p photo_B) = Inr (PyList []) \<and>
      length (errors_shown (snd (analyze_image_for_words ?p photo_B))) = 1"
    and "map (\<lambda>(sv, b). (fst (analyze_image_for_words sv b),
                       length (errors_shown (snd (analyze_image_for_words sv b))))) ?calls =
      replicate (length ?calls) (Inr (PyList []), 1)"
    by blast+
  with m r show ?thesis by simp
qed

text \<open>
  C8. When the trimmed text of the response starts with an opening bracket, ends with a
  closing bracket and \<^verbatim>\<open>json.loads\<close> returns a value, \<open>analyze_image_for_words\<close> returns
  that value as it is and shows no message; the shape of the elements is not looked at,
  so an array of a string and a number is returned too.
\<close>

theorem analyze_returns_parsed_value_verbatim:
  assumes "model_returns sv image_bytes img t"
    and "bracketed (strip t)"
    and "json_loads sv (strip t) = Inr v"
  shows "analyze_image_for_words sv image_bytes = (Inr v, [Vision_call img])"
proof -
  from assms(1) obtain response where r: "Image_open sv image_bytes = Inr img"
    "generate_content sv img = Inr response" "text_of response = Inr t"
    by (rule model_returnsD)
  have "parse_response sv response = (Inr v, [])"
    using r(3) assms(2,3) by (rule parse_response_bracketed_value)
  then show ?thesis
    using r(1,2) by (simp add: analyze_with_response)
qed

theorem analyze_returns_parsed_value_verbatim_witness:
  "model_returns (scenario (Inr (py ''  '' @ mixed_array_text))) photo_B (Image photo_B)
     (py ''  '' @ mixed_array_text) \<and>
   bracketed (strip (py ''  '' @ mixed_array_text)) \<and>
   json_loads (scenario (Inr (py ''  '' @ mixed_array_text))) (strip (py ''  '' @ mixed_array_text)) =
     Inr (PyList [PyStr (py ''mug''), PyInt 7]) \<and>
   analyze_image_for_words (scenario (Inr (py ''  '' @ mixed_array_text))) photo_B =
     (Inr (PyList [PyStr (py ''mug''), PyInt 7]), [Vision_call (Image photo_B)])"
proof -
  let ?t = "py ''  '' @ mixed_array_text"
  let ?sv = "scenario (Inr ?t)"
  have m: "model_returns ?sv photo_B (Image photo_B) ?t"
    by (rule model_returns_scenario)
  have b: "bracketed (strip ?t)"
    by (simp only: strip_mixed_array_text bracketed_scenario)
  have j: "json_loads ?sv (strip ?t) = Inr (PyList [PyStr (py ''mug''), PyInt 7])"
    by (simp only: strip_mixed_array_text scenario_simps scenario_json_loads_values)
  from analyze_returns_parsed_value_verbatim [OF m b j] m b j show ?thesis by simp
qed

lemma parse_response_text_raises:
  assumes "text_of response = Inl e"
  shows "parse_response sv response =
     (case e of
        JSONDecodeError m \<Rightarrow> (Inr (PyList []), [St_error Json_unparseable])
      | _ \<Rightarrow> (Inl e, []))"
  using assms by (cases e) (simp_all add: parse_response_def)

lemma parse_response_loads_raises:
  assumes "text_of response = Inr t" and "bracketed (strip t)"
    and "json_loads sv (strip t) = Inl e"
  shows "parse_response sv response =
     (case e of
        JSONDecodeError m \<Rightarrow> (Inr (PyList []), [St_error Json_unparseable])
      | _ \<Rightarrow> (Inl e, []))"
  using assms by (cases e) (simp_all add: parse_response_def bracketed_def)

text \<open>
  C5. \<open>analyze_image_for_words\<close> returns on every input, whatever the services do: no
  exception leaves it. Each failure ends in the empty list and exactly one message: an
  image that does not decode; a model call that raises; a response whose text cannot be
  read; a trimmed text that does not start with an opening and end with a closing
  bracket, as a truncated array and the text of every JSON value that is not a list
  do; and a bracketed text on which \<^verbatim>\<open>json.loads\<close> raises. The message is that of
  line 96 for a decode error of \<^verbatim>\<open>json.loads\<close>, that of line 93 for the brackets, and
  that of line 100, with the text of the exception, otherwise.
\<close>

theorem analyze_failures_caught:
  "(\<exists>v evs. analyze_image_for_words sv image_bytes = (Inr v, evs)) \<and>
   (Image_open sv image_bytes = Inl e \<longrightarrow>
      analyze_image_for_words sv image_bytes =
        (Inr (PyList []), [St_error (Analysis_failed (str_of_exception e))])) \<and>
   (Image_open sv image_bytes = Inr img \<and> generate_content sv img = Inl e \<longrightarrow>
      analyze_image_for_words sv image_bytes =
        (Inr (PyList []), [Vision_call img, St_error (Analysis_failed (str_of_exception e))])) \<and>
   (Image_open sv image_bytes = Inr img \<and> generate_content sv img = Inr response \<and>
    text_of response = Inl e \<longrightarrow>
      analyze_image_for_words sv image_bytes =
        (Inr (PyList []),
         [Vision_call img,
          St_error (case e of JSONDecodeError m \<Rightarrow> Json_unparseable
                    | _ \<Rightarrow> Analysis_failed (str_of_exception e))])) \<and>
   (model_returns sv image_bytes img t \<and> \<not> bracketed (strip t) \<longrightarrow>
      analyze_image_for_words sv image_bytes =
        (Inr (PyList []), [Vision_call img, St_error Bad_response_format])) \<and>
   (model_returns sv image_bytes img t \<and> bracketed (strip t) \<and>
    json_loads sv (strip t) = Inl e \<longrightarrow>
      analyze_image_for_words sv image_bytes =
        (Inr (PyList []),
         [Vision_call img,
          St_error (case e of JSONDecodeError m \<Rightarrow> Json_unparseable
                    | _ \<Rightarrow> Analysis_failed (str_of_exception e))]))"
proof (intro conjI impI)
  show "\<exists>v evs. analyze_image_for_words sv image_bytes = (Inr v, evs)"
    by (rule analyze_never_raises)
next
  assume "Image_open sv image_bytes = Inl e"
  then show "analyze_image_for_words sv image_bytes =
        (Inr (PyList []), [St_error (Analysis_failed (str_of_exception e))])"
    by (simp add: analyze_image_for_words_def)
next
  assume "Image_open sv image_bytes = Inr img \<and> generate_content sv img = Inl e"
  then show "analyze_image_for_words sv image_bytes =
        (Inr (PyList []), [Vision_call img, St_error (Analysis_failed (str_of_exception e))])"
    by (simp add: analyze_image_for_words_def)
next
  assume a: "Image_open sv image_bytes = Inr img \<and> generate_content sv img = Inr response \<and>
    text_of response = Inl e"
  then have "parse_response sv response =
     (case e of
        JSONDecodeError m \<Rightarrow> (Inr (PyList []), [St_error Json_unparseable])
      | _ \<Rightarrow> (Inl e, []))"
    by (simp add: parse_response_text_raises)
  with a show "analyze_image_for_words sv image_bytes =
        (Inr (PyList []),
         [Vision_call img,
          St_error (case e of JSONDecodeError m \<Rightarrow> Json_unparseable
                    | _ \<Rightarrow> Analysis_failed (str_of_exception e))])"
    by (cases e) (simp_all add: analyze_with_response)
next
  assume a: "model_returns sv image_bytes img t \<and> \<not> bracketed (strip t)"
  then obtain r where r: "Image_open sv image_bytes = Inr img"
    "generate_content sv img = Inr r" "text_of r = Inr t"
    by (blast elim: model_returnsD)
  from a r(3) have "parse_response sv r = (Inr (PyList []), [St_error Bad_response_format])"
    by (simp add: parse_response_unbracketed)
  with r(1,2) show "analyze_image_for_words sv image_bytes =
        (Inr (PyList []), [Vision_call img, St_error Bad_response_format])"
    by (simp add: analyze_with_response)
next
  assume a: "model_returns sv image_bytes img t \<and> bracketed (strip t) \<and>
    json_loads sv (strip t) = Inl e"
  then obtain r where r: "Image_open sv image_bytes = Inr img"
    "generate_content sv img = Inr r" "text_of r = Inr t"
    by (blast elim: model_returnsD)
  from a r(3) have "parse_response sv r =
     (case e of
        JSONDecodeError m \<Rightarrow> (Inr (PyList []), [St_error Json_unparseable])
      | _ \<Rightarrow> (Inl e, []))"
    by (simp add: parse_response_loads_raises)
  with r(1,2) show "analyze_image_for_words sv image_bytes =
        (Inr (PyList []),
         [Vision_call img,
          St_error (case e of JSONDecodeError m \<Rightarrow> Json_unparseable
                    | _ \<Rightarrow> Analysis_failed (str_of_exception e))])"
    by (cases e) (simp_all add: analyze_with_response)
qed

text \<open>
  The theorem at one input for each failure: an empty buffer; a quota error of the model;
  a response whose text cannot be read; a truncated array, which starts with a bracket
  and does not end with one; a JSON object, which is not a list; a bracketed text that
  the decoder rejects; and a decoder that fails with another exception.
\<close>

theorem analyze_failures_caught_witness:
  \<open>analyze_image_for_words (scenario (Inr [])) [] =
     (Inr (PyList []), [St_error (Analysis_failed (py ''cannot identify image file''))]) \<and>
   analyze_image_for_words (scenario (Inl (OtherException (py ''quota exceeded'')))) photo_B =
     (Inr (PyList []), [Vision_call (Image photo_B), St_error (Analysis_failed (py ''quota exceeded''))]) \<and>
   analyze_image_for_words
       ((scenario (Inr []))\<lparr>generate_content :=
          \<lambda>img. Inr (Response (Inl (OtherException (py ''response was blocked''))))\<rparr>) photo_B =
     (Inr (PyList []),
      [Vision_call (Image photo_B), St_error (Analysis_failed (py ''response was blocked''))]) \<and>
   startswith (strip truncated_array_text) (py ''['') \<and>
   analyze_image_for_words (scenario (Inr truncated_array_text)) photo_B =
     (Inr (PyList []), [Vision_call (Image photo_B), St_error Bad_response_format]) \<and>
   analyze_image_for_words (scenario (Inr (py ''{"english_name": "key"}''))) photo_B =
     (Inr (PyList []), [Vision_call (Image photo_B), St_error Bad_response_format]) \<and>
   analyze_image_for_words (scenario (Inr broken_array_text)) photo_B =
     (Inr (PyList []), [Vision_call (Image photo_B), St_error Json_unparseable]) \<and>
   analyze_image_for_words
       ((scenario (Inr broken_array_text))\<lparr>json_loads :=
          \<lambda>s. Inl (OtherException (py ''maximum recursion depth exceeded''))\<rparr>) photo_B =
     (Inr (PyList []),
      [Vision_call (Image photo_B),
       St_error (Analysis_failed (py ''maximum recursion depth exceeded''))])\<close>
proof -
  let ?quota = "OtherException (py ''quota exceeded'')"
  let ?blocked = "OtherException (py ''response was blocked'')"
  let ?deep = "OtherException (py ''maximum recursion depth exceeded'')"
  let ?obj = \<open>py ''{"english_name": "key"}''\<close>
  let ?sb = "(scenario (Inr []))\<lparr>generate_content := \<lambda>img. Inr (Response (Inl ?blocked))\<rparr>"
  let ?sd = "(scenario (Inr broken_array_text))\<lparr>json_loads := \<lambda>s. Inl ?deep\<rparr>"
  have d: "Image_open (scenario (Inr [])) [] = Inl (OtherException (py ''cannot identify image file''))"
    by (simp add: scenario_simps)
  have g: "Image_open (scenario (Inl ?quota)) photo_B = Inr (Image photo_B) \<and>
      generate_content (scenario (Inl ?quota)) (Image photo_B) = Inl ?quota"
    by (simp add: scenario_simps photos_not_empty)
  have x: "Image_open ?sb photo_B = Inr (Image photo_B) \<and>
      generate_content ?sb (Image photo_B) = Inr (Response (Inl ?blocked)) \<and>
      text_of (Response (Inl ?blocked)) = Inl ?blocked"
    by (simp add: scenario_simps photos_not_empty)
  have u: "model_returns (scenario (Inr truncated_array_text)) photo_B (Image photo_B)
        truncated_array_text \<and>
      \<not> bracketed (strip truncated_array_text)"
    by (simp add: model_returns_scenario strip_truncated_array_text truncated_array_text_brackets)
  have n: "model_returns (scenario (Inr ?obj)) photo_B (Image photo_B) ?obj \<and>
      \<not> bracketed (strip ?obj)"
    by (simp add: model_returns_scenario strip_object_text bracketed_scenario)
  have j: "model_returns (scenario (Inr broken_array_text)) photo_B (Image photo_B) broken_array_text \<and>
      bracketed (strip broken_array_text) \<and>
      json_loads (scenario (Inr broken_array_text)) (strip broken_array_text) =
        Inl (JSONDecodeError (py ''Expecting value''))"
    by (simp add: model_returns_scenario strip_broken_array_text bracketed_scenario scenario_simps
        scenario_json_loads_values)
  have k: "model_returns ?sd photo_B (Image photo_B) broken_array_text \<and>
      bracketed (strip broken_array_text) \<and>
      json_loads ?sd (strip broken_array_text) = Inl ?deep"
    by (simp add: model_returns_def scenario_simps photos_not_empty strip_broken_array_text
        bracketed_scenario)
  from analyze_failures_caught [of "scenario (Inr [])" "[]" "OtherException (py ''cannot identify image file'')"] d
  have 1: "analyze_image_for_words (scenario (Inr [])) [] =
     (Inr (PyList []), [St_error (Analysis_failed (py ''cannot identify image file''))])"
    by simp
  from analyze_failures_caught [of "scenario (Inl ?quota)" photo_B ?quota "Image photo_B"] g
  have 2: "analyze_image_for_words (scenario (Inl ?quota)) photo_B =
     (Inr (PyList []), [Vision_call (Image photo_B), St_error (Analysis_failed (py ''quota exceeded''))])"
    by simp
  from analyze_failures_caught [of ?sb photo_B ?blocked "Image photo_B" "Response (Inl ?blocked)"] x
  have 3: "analyze_image_for_words ?sb photo_B =
     (Inr (PyList []),
      [Vision_call (Image photo_B), St_error (Analysis_failed (py ''response was blocked''))])"
    by simp
  from analyze_failures_caught [of "scenario (Inr truncated_array_text)" photo_B _ "Image photo_B"
      _ truncated_array_text] u
  have 4: "analyze_image_for_words (scenario (Inr truncated_array_text)) photo_B =
     (Inr (PyList []), [Vision_call (Image photo_B), St_error Bad_response_format])"
    by blast
  from analyze_failures_caught [of "scenario (Inr ?obj)" photo_B _ "Image photo_B" _ ?obj] n
  have 5: "analyze_image_for_words (scenario (Inr ?obj)) photo_B =
     (Inr (PyList []), [Vision_call (Image photo_B), St_error Bad_response_format])"
    by blast
  from analyze_failures_caught [of "scenario (Inr broken_array_text)" photo_B
      "JSONDecodeError (py ''Expecting value'')" "Image photo_B" _ broken_array_text] j
  have 6: "analyze_image_for_words (scenario (Inr broken_array_text)) photo_B =
     (Inr (PyList []), [Vision_call (Image photo_B), St_error Json_unparseable])"
    by simp
  from analyze_failures_caught [of ?sd photo_B ?deep "Image photo_B" _ broken_array_text] k
  have 7: "analyze_image_for_words ?sd photo_B =
     (Inr (PyList []),
      [Vision_call (Image photo_B),
       St_error (Analysis_failed (py ''maximum recursion depth exceeded''))])"
    by simp
  have s: "startswith (strip truncated_array_text) (py ''['')"
    by (simp only: strip_truncated_array_text truncated_array_text_brackets)
  from 1 2 3 4 5 6 7 s show ?thesis by blast
qed

section \<open>Properties of the speech synthesis adapter\<close>

lemma get_tts_audio_client_fails:
  assumes "TextToSpeechClient sv = Inl e"
  shows "get_tts_audio sv t = (Inr None, [St_error (Tts_failed (str_of_exception e))])"
  using assms by (simp add: get_tts_audio_def)

lemma get_tts_audio_synthesis_fails:
  assumes "TextToSpeechClient sv = Inr client"
    and "synthesize_speech sv client (build_request t) = Inl e"
  shows "get_tts_audio sv t =
     (Inr None, [Tts_call (build_request t), St_error (Tts_failed (str_of_exception e))])"
  using assms by (simp add: get_tts_audio_def)

lemma get_tts_audio_returns:
  assumes "TextToSpeechClient sv = Inr client"
    and "synthesize_speech sv client (build_request t) = Inr audio_content"
  shows "get_tts_audio sv t = (Inr (Some audio_content), [Tts_call (build_request t)])"
  using assms by (simp add: get_tts_audio_def)

text \<open>
  C6. For every input, the request that \<open>get_tts_audio\<close> builds has the voice
  \<^verbatim>\<open>en-US\<close>, \<^verbatim>\<open>en-US-Wavenet-F\<close>, female, and the audio format MP3 at rate 0.9 and
  pitch 0; only the text comes from the input. A call sends that request and no other:
  none when the client cannot be built, one otherwise.
\<close>

theorem tts_request_fixed:
  "voice (build_request text_to_speak) =
     \<lparr>language_code = py ''en-US'', name = py ''en-US-Wavenet-F'', ssml_gender = FEMALE\<rparr> \<and>
   audio_config (build_request text_to_speak) =
     \<lparr>audio_encoding = MP3, speaking_rate = 9 / 10, pitch = 0\<rparr> \<and>
   synthesis_input (build_request text_to_speak) = text_to_speak \<and>
   tts_calls (snd (get_tts_audio sv text_to_speak)) =
     (case TextToSpeechClient sv of Inl e \<Rightarrow> [] | Inr client \<Rightarrow> [build_request text_to_speak])"
proof (intro conjI)
  show "tts_calls (snd (get_tts_audio sv text_to_speak)) =
     (case TextToSpeechClient sv of Inl e \<Rightarrow> [] | Inr client \<Rightarrow> [build_request text_to_speak])"
  proof (cases "TextToSpeechClient sv")
    case (Inl e)
    then show ?thesis by (simp add: get_tts_audio_client_fails)
  next
    case (Inr client)
    then show ?thesis
      by (cases "synthesize_speech sv client (build_request text_to_speak)")
        (simp_all add: get_tts_audio_synthesis_fails get_tts_audio_returns)
  qed
qed (simp_all add: build_request_def)

text \<open>
  C7. When building the client or the synthesis call raises, \<open>get_tts_audio\<close> returns
  \<^verbatim>\<open>None\<close>, having shown exactly one error message, which carries the text of the
  exception; it does not raise.
\<close>

theorem tts_failure_caught:
  assumes "TextToSpeechClient sv = Inl e \<or>
     (\<exists>client. TextToSpeechClient sv = Inr client \<and>
        synthesize_speech sv client (build_request text_to_speak) = Inl e)"
  shows "fst (get_tts_audio sv text_to_speak) = Inr None \<and>
     errors_shown (snd (get_tts_audio sv text_to_speak)) = [Tts_failed (str_of_exception e)]"
  using assms
  by (auto simp add: get_tts_audio_client_fails get_tts_audio_synthesis_fails)

theorem tts_failure_caught_witness:
  "(\<exists>client. TextToSpeechClient (scenario (Inr [])) = Inr client \<and>
      synthesize_speech (scenario (Inr [])) client (build_request (PyStr [])) =
        Inl (OtherException (py ''empty input''))) \<and>
   fst (get_tts_audio (scenario (Inr [])) (PyStr [])) = Inr None \<and>
   errors_shown (snd (get_tts_audio (scenario (Inr [])) (PyStr []))) = [Tts_failed (py ''empty input'')]"
proof -
  have h: "\<exists>client. TextToSpeechClient (scenario (Inr [])) = Inr client \<and>
      synthesize_speech (scenario (Inr [])) client (build_request (PyStr [])) =
        Inl (OtherException (py ''empty input''))"
    by (simp add: scenario_def build_request_def)
  then have "TextToSpeechClient (scenario (Inr [])) = Inl (OtherException (py ''empty input'')) \<or>
     (\<exists>client. TextToSpeechClient (scenario (Inr [])) = Inr client \<and>
        synthesize_speech (scenario (Inr [])) client (build_request (PyStr [])) =
          Inl (OtherException (py ''empty input'')))" ..
  from tts_failure_caught [OF this] h show ?thesis by simp
qed

section \<open>Properties of the script\<close>

subsection \<open>Initialisation\<close>

lemma init_conversation:
  "conversation (init_session_state s) = (case conversation s of None \<Rightarrow> Some [] | Some v \<Rightarrow> Some v)"
  by (cases "conversation s") (simp_all add: init_session_state_def Let_def)

lemma init_feedback_log:
  "feedback_log (init_session_state s) = (case feedback_log s of None \<Rightarrow> Some [] | Some v \<Rightarrow> Some v)"
  by (cases "feedback_log s") (simp_all add: init_session_state_def Let_def)

lemma init_current_image:
  "current_image (init_session_state s) =
     (case current_image s of None \<Rightarrow> Some None | Some v \<Rightarrow> Some v)"
  by (cases "current_image s") (simp_all add: init_session_state_def Let_def)

lemma init_audio_filename:
  "audio_filename (init_session_state s) =
     (case audio_filename s of None \<Rightarrow> Some None | Some v \<Rightarrow> Some v)"
  by (cases "audio_filename s") (simp_all add: init_session_state_def Let_def)

lemma init_is_recording:
  "is_recording (init_session_state s) =
     (case is_recording s of None \<Rightarrow> Some False | Some v \<Rightarrow> Some v)"
  by (cases "is_recording s") (simp_all add: init_session_state_def Let_def)

lemma init_analyzed_objects:
  "analyzed_objects (init_session_state s) =
     (case analyzed_objects s of None \<Rightarrow> Some (PyList []) | Some v \<Rightarrow> Some v)"
  by (cases "analyzed_objects s") (simp_all add: init_session_state_def Let_def)

lemma init_all_present:
  assumes "conversation s \<noteq> None" "feedback_log s \<noteq> None" "current_image s \<noteq> None"
    "audio_filename s \<noteq> None" "is_recording s \<noteq> None" "analyzed_objects s \<noteq> None"
  shows "init_session_state s = s"
  using assms by (auto simp add: init_session_state_def)

lemma init_idempotent: "init_session_state (init_session_state s) = init_session_state s"
  by (rule init_all_present)
    (auto simp add: init_conversation init_feedback_log init_current_image init_audio_filename
      init_is_recording init_analyzed_objects split: option.splits)

text \<open>
  C9. The initialisation assigns each of the six fields its default (two empty lists,
  \<^verbatim>\<open>None\<close> twice, \<^verbatim>\<open>False\<close>, an empty list) when the field is absent, and leaves a
  field that holds a value as it is; so running the block again changes nothing.
\<close>

theorem init_session_state_conditional:
  "conversation (init_session_state s) =
     (case conversation s of None \<Rightarrow> Some [] | Some v \<Rightarrow> Some v) \<and>
   feedback_log (init_session_state s) =
     (case feedback_log s of None \<Rightarrow> Some [] | Some v \<Rightarrow> Some v) \<and>
   current_image (init_session_state s) =
     (case current_image s of None \<Rightarrow> Some None | Some v \<Rightarrow> Some v) \<and>
   audio_filename (init_session_state s) =
     (case audio_filename s of None \<Rightarrow> Some None | Some v \<Rightarrow> Some v) \<and>
   is_recording (init_session_state s) =
     (case is_recording s of None \<Rightarrow> Some False | Some v \<Rightarrow> Some v) \<and>
   analyzed_objects (init_session_state s) =
     (case analyzed_objects s of None \<Rightarrow> Some (PyList []) | Some v \<Rightarrow> Some v) \<and>
   init_session_state (init_session_state s) = init_session_state s"
  by (intro conjI) (rule init_conversation init_feedback_log init_current_image
      init_audio_filename init_is_recording init_analyzed_objects init_idempotent)+

subsection \<open>The keys of the pronounce buttons\<close>

lemma pronounce_key_detected_object:
  "pronounce_key sv (detected_object en zh) = Inr (py ''pronounce_'' @ en)"
  by (simp add: pronounce_key_def detected_object_def format_value_def py_def)

lemma button_keys_append: "button_keys (xs @ ys) = button_keys xs @ button_keys ys"
  by (induction xs rule: button_keys.induct) simp_all

lemma button_keys_get_tts_audio: "button_keys (snd (get_tts_audio sv v)) = []"
  by (simp add: get_tts_audio_def Let_def split: sum.splits)

lemma button_keys_pronounce: "button_keys (pronounce sv v) = []"
proof -
  obtain r evs where g: "get_tts_audio sv v = (r, evs)" by (cases "get_tts_audio sv v")
  with button_keys_get_tts_audio [of sv v] have "button_keys evs = []" by simp
  with g show ?thesis
    by (simp add: pronounce_def button_keys_append split: sum.splits option.splits)
qed

lemma subscript_detected_object:
  "subscript (detected_object en zh) (py ''english_name'') = Inr (PyStr en)"
  "subscript (detected_object en zh) (py ''chinese_name'') = Inr (PyStr zh)"
  by (simp_all add: detected_object_def py_def)

lemma render_row_fresh_key:
  assumes "py ''pronounce_'' @ en \<notin> set used"
  shows "\<exists>evs. render_row sv w used (detected_object en zh) = (evs, Completed) \<and>
     button_keys evs = [py ''pronounce_'' @ en]"
  using assms
  by (simp add: render_row_def subscript_detected_object pronounce_key_detected_object
      format_value_def Let_def button_keys_append button_keys_pronounce)

lemma render_row_used_key:
  assumes "py ''pronounce_'' @ en \<in> set used"
  shows "render_row sv w used (detected_object en zh) =
     ([St_markdown (py ''**'' @ en @ py ''**''), St_markdown zh],
      Duplicate_key (py ''pronounce_'' @ en))"
  using assms
  by (simp add: render_row_def subscript_detected_object pronounce_key_detected_object
      format_value_def Let_def)

lemma keys_after_detected_object:
  "keys_after sv used (detected_object en zh) = (py ''pronounce_'' @ en) # used"
  by (simp add: keys_after_def pronounce_key_detected_object)

lemma distinct_map_inj: "inj_on f (set xs) \<Longrightarrow> distinct (map f xs) = distinct xs"
  by (simp add: distinct_map)

lemma keys_of_distinct: "distinct (keys_of records) \<longleftrightarrow> distinct (map fst records)"
proof -
  have k: "keys_of records = map ((@) (py ''pronounce_'')) (map fst records)"
    by (simp add: keys_of_def case_prod_beta comp_def)
  have "inj_on ((@) (py ''pronounce_'')) (set (map fst records))"
    by (rule inj_onI) simp
  then show ?thesis
    unfolding k by (rule distinct_map_inj)
qed

lemma map_pronounce_key_batch: "map (pronounce_key sv) (batch records) = map Inr (keys_of records)"
  by (induction records) (auto simp add: batch_def keys_of_def pronounce_key_detected_object)

lemma render_rows_distinct:
  assumes "distinct (map fst records)" and "set (keys_of records) \<inter> set used = {}"
  shows "\<exists>evs. render_rows sv w used (batch records) = (evs, Completed) \<and>
     button_keys evs = keys_of records"
  using assms
proof (induction records arbitrary: used)
  case Nil
  show ?case by (simp add: batch_def keys_of_def)
next
  case (Cons r records)
  obtain en zh where r: "r = (en, zh)" by (cases r)
  let ?k = "py ''pronounce_'' @ en"
  from Cons.prems(2) r have fresh: "?k \<notin> set used"
    by (auto simp add: keys_of_def)
  then obtain evs1 where 1: "render_row sv w used (detected_object en zh) = (evs1, Completed)"
    "button_keys evs1 = [?k]"
    using render_row_fresh_key by blast
  from Cons.prems(1) r have d: "distinct (map fst records)" and n: "en \<notin> fst ` set records"
    by simp_all
  from n have "?k \<notin> set (keys_of records)"
    by (force simp add: keys_of_def)
  with Cons.prems(2) r have "set (keys_of records) \<inter> set (?k # used) = {}"
    by (auto simp add: keys_of_def)
  from Cons.IH [OF d this] obtain evs2 where
    2: "render_rows sv w (?k # used) (batch records) = (evs2, Completed)"
    "button_keys evs2 = keys_of records" by blast
  from r 1 2 show ?case
    by (simp add: batch_def keys_of_def keys_after_detected_object button_keys_append)
qed

lemma render_rows_duplicate:
  assumes "distinct (map fst before)" and "set (keys_of before) \<inter> set used = {}"
    and "py ''pronounce_'' @ en \<in> set used \<or> en \<in> fst ` set before"
  shows "\<exists>evs. render_rows sv w used (batch (before @ (en, zh) # rest)) =
       (evs, Duplicate_key (py ''pronounce_'' @ en)) \<and>
     button_keys evs = keys_of before"
  using assms
proof (induction before arbitrary: used)
  case Nil
  then have "py ''pronounce_'' @ en \<in> set used" by simp
  then show ?case
    by (simp add: batch_def keys_of_def render_row_used_key)
next
  case (Cons r before)
  obtain en' zh' where r: "r = (en', zh')" by (cases r)
  let ?k = "py ''pronounce_'' @ en'"
  from Cons.prems(2) r have fresh: "?k \<notin> set used"
    by (auto simp add: keys_of_def)
  then obtain evs1 where 1: "render_row sv w used (detected_object en' zh') = (evs1, Completed)"
    "button_keys evs1 = [?k]"
    using render_row_fresh_key by blast
  from Cons.prems(1) r have d: "distinct (map fst before)" and n: "en' \<notin> fst ` set before"
    by simp_all
  from n have "?k \<notin> set (keys_of before)"
    by (force simp add: keys_of_def)
  with Cons.prems(2) r have i: "set (keys_of before) \<inter> set (?k # used) = {}"
    by (auto simp add: keys_of_def)
  from Cons.prems(3) r have "py ''pronounce_'' @ en \<in> set (?k # used) \<or> en \<in> fst ` set before"
    by auto
  from Cons.IH [OF d i this] obtain evs2 where
    2: "render_rows sv w (?k # used) (batch (before @ (en, zh) # rest)) =
         (evs2, Duplicate_key (py ''pronounce_'' @ en))"
    "button_keys evs2 = keys_of before" by blast
  from r 1 2 show ?case
    by (simp add: batch_def keys_of_def keys_after_detected_object button_keys_append)
qed

text \<open>
  C10. The key of the pronounce button of a record is the string \<^verbatim>\<open>pronounce_\<close>
  followed by its english name, whatever its chinese name; so the keys of a batch of
  records are distinct exactly when the english names are. A batch with distinct names
  is rendered to its end, one button per record, with these keys in order. In a batch
  where a name repeats, the second record with that name asks for the key that the
  first one has: the keys are not unique, the framework refuses the second button and
  the pass stops there, after the buttons of the records before it.
\<close>

theorem pronounce_key_from_english_name:
  "pronounce_key sv (detected_object en zh) = Inr (py ''pronounce_'' @ en) \<and>
   (distinct (map (pronounce_key sv) (batch records)) \<longleftrightarrow> distinct (map fst records)) \<and>
   (distinct (map fst records) \<longrightarrow>
      (\<exists>evs. render_rows sv w [] (batch records) = (evs, Completed) \<and>
         button_keys evs = keys_of records)) \<and>
   (distinct (map fst before) \<and> en \<in> fst ` set before \<longrightarrow>
      (\<exists>evs. render_rows sv w [] (batch (before @ (en, zh) # rest)) =
           (evs, Duplicate_key (py ''pronounce_'' @ en)) \<and>
         button_keys evs = keys_of before))"
proof (intro conjI impI)
  show "pronounce_key sv (detected_object en zh) = Inr (py ''pronounce_'' @ en)"
    by (rule pronounce_key_detected_object)
  have "inj_on (Inr :: py_str \<Rightarrow> py_exception + py_str) (set (keys_of records))"
    by (rule inj_onI) simp
  then have "distinct (map Inr (keys_of records) :: (py_exception + py_str) list) =
      distinct (keys_of records)"
    by (rule distinct_map_inj)
  then show "distinct (map (pronounce_key sv) (batch records)) \<longleftrightarrow> distinct (map fst records)"
    by (simp only: map_pronounce_key_batch keys_of_distinct)
next
  assume "distinct (map fst records)"
  then show "\<exists>evs. render_rows sv w [] (batch records) = (evs, Completed) \<and>
         button_keys evs = keys_of records"
    by (rule render_rows_distinct) simp
next
  assume "distinct (map fst before) \<and> en \<in> fst ` set before"
  then show "\<exists>evs. render_rows sv w [] (batch (before @ (en, zh) # rest)) =
           (evs, Duplicate_key (py ''pronounce_'' @ en)) \<and>
         button_keys evs = keys_of before"
    by (intro render_rows_duplicate) simp_all
qed

text \<open>
  The theorem at two records with different names, and at four records where the name
  \<^verbatim>\<open>key\<close> comes a second time in the third.
\<close>

theorem pronounce_key_from_english_name_witness:
  "distinct (map fst [(py ''mug'', [39532, 20811, 26479]), (py ''key'', [38053, 21273])]) \<and>
   py ''key'' \<in> fst ` set [(py ''mug'', [39532, 20811, 26479]), (py ''key'', [38053, 21273])] \<and>
   (\<exists>evs. render_rows (scenario (Inr [])) (capture photo_A) []
        [mug_record, key_record] = (evs, Completed) \<and>
      button_keys evs = [py ''pronounce_mug'', py ''pronounce_key'']) \<and>
   (\<exists>evs. render_rows (scenario (Inr [])) (capture photo_A) []
        [mug_record, key_record, other_key_record, mug_record] =
          (evs, Duplicate_key (py ''pronounce_key'')) \<and>
      button_keys evs = [py ''pronounce_mug'', py ''pronounce_key'']) \<and>
   \<not> distinct (map (pronounce_key (scenario (Inr [])))
       [mug_record, key_record, other_key_record, mug_record])"
proof -
  let ?two = "[(py ''mug'', [39532, 20811, 26479]), (py ''key'', [38053, 21273])]"
  let ?four = "?two @ (py ''key'', [38190]) # [(py ''mug'', [39532, 20811, 26479])]"
  let ?sv = "scenario (Inr [])"
  have d: "distinct (map fst ?two)" and m: "py ''key'' \<in> fst ` set ?two"
    by (simp_all add: py_def)
  have nd: "\<not> distinct (map fst ?four)"
    by (simp add: py_def)
  have b2: "batch ?two = [mug_record, key_record]"
    and b4: "batch ?four = [mug_record, key_record, other_key_record, mug_record]"
    by (simp_all add: batch_def mug_record_def key_record_def other_key_record_def)
  have k: "keys_of ?two = [py ''pronounce_mug'', py ''pronounce_key'']"
    by (simp add: keys_of_def py_def)
  note t = pronounce_key_from_english_name [of ?sv "py ''key''" "[38190]" ?four "capture photo_A"
      ?two "[(py ''mug'', [39532, 20811, 26479])]"]
  note u = pronounce_key_from_english_name [of ?sv "py ''key''" "[38190]" ?two "capture photo_A"
      ?two "[(py ''mug'', [39532, 20811, 26479])]"]
  from t nd have 1: "\<not> distinct (map (pronounce_key ?sv) (batch ?four))"
    by blast
  from u d have 2: "\<exists>evs. render_rows ?sv (capture photo_A) [] (batch ?two) = (evs, Completed) \<and>
      button_keys evs = keys_of ?two"
    by blast
  from t d m have 3: "\<exists>evs. render_rows ?sv (capture photo_A) [] (batch ?four) =
        (evs, Duplicate_key (py ''pronounce_'' @ py ''key'')) \<and>
      button_keys evs = keys_of ?two"
    by blast
  have p: "py ''pronounce_'' @ py ''key'' = py ''pronounce_key''"
    by (simp add: py_def)
  from 1 2 3 d m show ?thesis
    unfolding b2 b4 k p by blast
qed

subsection \<open>A new photo and the previous analysis\<close>

lemma then_block_session:
  assumes "\<And>x. session (fst (f x)) = session x"
  shows "session (fst (then_block p f)) = session (fst p)"
proof -
  obtain wd evs st where p: "p = (wd, evs, st)" by (cases p)
  show ?thesis
  proof (cases st)
    case Completed
    obtain wd' evs' st' where f: "f wd = (wd', evs', st')" by (cases "f wd")
    with assms [of wd] have "session wd' = session wd" by simp
    with p Completed f show ?thesis by (simp add: then_block_def)
  qed (simp_all add: p then_block_def)
qed

lemma on_view_session: "session (fst (on_view f wd)) = session wd"
  by (simp add: on_view_def split: prod.splits)

lemma audio_block_session: "session (fst (audio_block wd)) = session wd"
  by (simp add: audio_block_def Let_def split: option.splits)

lemma script_session:
  "session (fst (script sv w wd)) = fst (capture_block sv w (init_session_state (session wd)))"
proof -
  let ?start = "(wd\<lparr>session := init_session_state (session wd)\<rparr>, [], Completed) :: world pass"
  have "session (fst (script sv w wd)) =
      session (fst (then_block ?start (on_session (capture_block sv w))))"
    unfolding script_def
    by (simp only: then_block_session on_view_session audio_block_session)
  also have "\<dots> = fst (capture_block sv w (init_session_state (session wd)))"
    by (simp add: then_block_def on_session_def split: prod.splits)
  finally show ?thesis .
qed

lemma capture_block_not_clicked:
  assumes "camera_input w = Some photo" and "\<not> analyze_button w"
  shows "fst (capture_block sv w s) = s\<lparr>current_image := Some (Some photo)\<rparr>"
  using assms by (simp add: capture_block_def Let_def split: prod.splits)

lemma capture_block_clicked:
  assumes "camera_input w = Some photo" and "analyze_button w"
    and "analyze_image_for_words sv photo = (Inr results, evs)"
  shows "capture_block sv w s =
     (s\<lparr>current_image := Some (Some photo), analyzed_objects := Some results\<rparr>,
      [St_image photo, St_button analyze_label None] @ evs, Rerun)"
  using assms by (simp add: capture_block_def Let_def)


lemma analyze_returns:
  obtains results evs where "analyze_image_for_words sv photo = (Inr results, evs)"
  using analyze_never_raises [of sv photo] by blast

lemma capture_block_state:
  assumes "camera_input w = Some photo"
  shows "fst (capture_block sv w s) =
     s\<lparr>current_image := Some (Some photo),
       analyzed_objects :=
         (if analyze_button w
          then (case fst (analyze_image_for_words sv photo) of
                  Inr results \<Rightarrow> Some results
                | Inl e \<Rightarrow> analyzed_objects s)
          else analyzed_objects s)\<rparr>"
proof (cases "analyze_button w")
  case True
  obtain results evs where a: "analyze_image_for_words sv photo = (Inr results, evs)"
    by (rule analyze_returns)
  from capture_block_clicked [OF assms True a] a True show ?thesis by simp
next
  case False
  from capture_block_not_clicked [OF assms False] False show ?thesis by simp
qed

lemma init_after_capture:
  assumes "camera_input w = Some photo"
  shows "init_session_state (fst (capture_block sv w (init_session_state s))) =
     fst (capture_block sv w (init_session_state s))"
proof (rule init_all_present)
  let ?s = "fst (capture_block sv w (init_session_state s))"
  note st = capture_block_state [OF assms, of sv "init_session_state s"]
  show "conversation ?s \<noteq> None"
    by (simp add: st init_conversation split: option.splits)
  show "feedback_log ?s \<noteq> None"
    by (simp add: st init_feedback_log split: option.splits)
  show "current_image ?s \<noteq> None"
    by (simp add: st)
  show "audio_filename ?s \<noteq> None"
    by (simp add: st init_audio_filename split: option.splits)
  show "is_recording ?s \<noteq> None"
    by (auto simp add: st init_is_recording split: option.splits)
  show "analyzed_objects ?s \<noteq> None"
    by (simp add: st init_analyzed_objects split: option.splits sum.splits)
qed

lemma interaction_session:
  assumes "camera_input w = Some photo"
  shows "session (fst (interaction sv w wd)) = session (fst (script sv w wd))"
proof -
  obtain wd1 evs1 st where p: "script sv w wd = (wd1, evs1, st)" by (cases "script sv w wd")
  show ?thesis
  proof (cases st)
    case Rerun
    let ?w' = "w\<lparr>analyze_button := False, pronounce_button := None\<rparr>"
    have c: "camera_input ?w' = Some photo" and n: "\<not> analyze_button ?w'"
      using assms by simp_all
    have s1: "session wd1 = fst (capture_block sv w (init_session_state (session wd)))"
      using script_session [of sv w wd] p by simp
    have i: "init_session_state (session wd1) = session wd1"
      unfolding s1 using assms by (rule init_after_capture)
    have ci: "current_image (session wd1) = Some (Some photo)"
      unfolding s1 by (simp add: capture_block_state [OF assms])
    have "session (fst (script sv ?w' wd1)) = fst (capture_block sv ?w' (session wd1))"
      by (simp add: script_session i)
    also have "\<dots> = (session wd1)\<lparr>current_image := Some (Some photo)\<rparr>"
      using c n by (rule capture_block_not_clicked)
    also have "\<dots> = session wd1"
      using ci by simp
    finally have "session (fst (script sv ?w' wd1)) = session wd1" .
    with p Rerun show ?thesis
      by (auto simp add: interaction_def split: prod.splits)
  qed (simp_all add: p interaction_def)
qed

lemma interaction_capture:
  assumes "camera_input w = Some photo"
  shows "session (fst (interaction sv w wd)) =
     fst (capture_block sv w (init_session_state (session wd)))"
  using assms by (simp add: interaction_session script_session)

lemma analyze_photo_A:
  "analyze_image_for_words (scenario a) photo_A =
     (Inr (PyList [key_record]), [Vision_call (Image photo_A)])"
proof -
  let ?t = "py '' '' @ key_record_text @ [10]"
  have "parse_response (scenario a) (Response (Inr ?t)) = (Inr (PyList [key_record]), [])"
    by (rule parse_response_bracketed_value [where t = ?t])
      (simp_all only: text_of.simps strip_key_record_text bracketed_scenario scenario_simps
        scenario_json_loads_values)
  then show ?thesis
    by (simp add: analyze_with_response [where img = "Image photo_A"
          and response = "Response (Inr ?t)"] scenario_simps photos_not_empty)
qed

lemma key_record_row:
  "render_row sv \<lparr>camera_input = c, analyze_button = b, pronounce_button = None\<rparr> [] key_record =
     ([St_markdown (py ''**key**''), St_markdown [38053, 21273],
       St_button speaker_label (Some (py ''pronounce_key'')), St_markdown (py ''---'')],
      Completed)"
  by (simp add: render_row_def pronounce_key_def key_record_def detected_object_def
      format_value_def py_def)

lemma script_analyze_A:
  "script (scenario a) (capture_and_analyze photo_A) fresh_world =
     (analyzed_A,
      [St_image photo_A, St_button analyze_label None, Vision_call (Image photo_A)], Rerun)"
  by (simp add: script_def then_block_def on_session_def capture_block_def
      init_session_state_def empty_session_state_def fresh_world_def capture_and_analyze_def
      analyze_photo_A analyzed_A_def)

lemma script_show_A:
  "script (scenario a) (capture photo_A) analyzed_A =
     (analyzed_A,
      [St_image photo_A, St_button analyze_label None,
       St_markdown (py ''**key**''), St_markdown [38053, 21273],
       St_button speaker_label (Some (py ''pronounce_key'')), St_markdown (py ''---'')],
      Completed)"
  by (simp add: script_def then_block_def on_session_def on_view_def capture_block_def
      render_analysis_def key_record_row conversation_block_def feedback_block_def
      audio_block_def init_session_state_def analyzed_A_def capture_def [of photo_A])

lemma script_capture_B:
  "script (scenario a) (capture photo_B) analyzed_A =
     (analyzed_A\<lparr>session := (session analyzed_A)\<lparr>current_image := Some (Some photo_B)\<rparr>\<rparr>,
      [St_image photo_B, St_button analyze_label None,
       St_markdown (py ''**key**''), St_markdown [38053, 21273],
       St_button speaker_label (Some (py ''pronounce_key'')), St_markdown (py ''---'')],
      Completed)"
  by (simp add: script_def then_block_def on_session_def on_view_def capture_block_def
      render_analysis_def key_record_row conversation_block_def feedback_block_def
      audio_block_def init_session_state_def analyzed_A_def capture_def [of photo_B])


lemma strip_empty_array_text: "strip (py ''[]'') = py ''[]''"
  by (simp add: strip_def py_def isspace_def)

lemma bracketed_empty_array_text: "bracketed (py ''[]'')"
  by (simp add: bracketed_def startswith_def endswith_def py_def)

lemma scenario_json_loads_empty: "scenario_json_loads (py ''[]'') = Inr (PyList [])"
  by (simp add: scenario_json_loads_def key_record_text_def mixed_array_text_def
      four_records_text_def py_def)

lemma analyze_photo_B_empty:
  "analyze_image_for_words (scenario (Inr (py ''[]''))) photo_B =
     (Inr (PyList []), [Vision_call (Image photo_B)])"
proof -
  have "parse_response (scenario (Inr (py ''[]''))) (Response (Inr (py ''[]''))) = (Inr (PyList []), [])"
    by (rule parse_response_bracketed_value [where t = "py ''[]''"])
      (simp_all only: text_of.simps strip_empty_array_text bracketed_empty_array_text
        scenario_simps scenario_json_loads_empty)
  then show ?thesis
    by (simp add: analyze_with_response [where img = "Image photo_B"
          and response = "Response (Inr (py ''[]''))"] scenario_simps photos_not_empty)
qed

lemma capture_simps:
  "camera_input (capture photo) = Some photo" "\<not> analyze_button (capture photo)"
  "camera_input (capture_and_analyze photo) = Some photo" "analyze_button (capture_and_analyze photo)"
  by (simp_all add: capture_def capture_and_analyze_def)

lemma init_analyzed_A: "init_session_state (session analyzed_A) = session analyzed_A"
  by (simp add: init_session_state_def analyzed_A_def)

text \<open>
  C1, as the script has it. An interaction in which the camera holds a photo starts from
  the session state as the initialisation leaves it. Without a click on the analyze
  button it changes the current image, which becomes that photo, and no other field:
  \<open>analyzed_objects\<close> stays as it was, so the result of the analysis of an earlier
  photo stays until the new photo is analyzed. With a click, \<open>analyzed_objects\<close>
  becomes exactly what the adapter returns for the new photo, the previous entries being
  replaced as a whole, and again no other field changes. The state after the
  interaction is one that the initialisation leaves as it is, as the state of every
  session in which a photo was analyzed is.
\<close>

theorem new_photo_keeps_analysis_until_analyzed:
  assumes "camera_input w = Some photo"
  shows "(if analyze_button w
      then \<exists>results evs. analyze_image_for_words sv photo = (Inr results, evs) \<and>
             session (fst (interaction sv w wd)) =
               (init_session_state (session wd))
                 \<lparr>current_image := Some (Some photo), analyzed_objects := Some results\<rparr>
      else session (fst (interaction sv w wd)) =
             (init_session_state (session wd))\<lparr>current_image := Some (Some photo)\<rparr>) \<and>
     init_session_state (session (fst (interaction sv w wd))) =
       session (fst (interaction sv w wd))"
proof -
  obtain results evs where a: "analyze_image_for_words sv photo = (Inr results, evs)"
    by (rule analyze_returns)
  note i = interaction_capture [OF assms, of sv wd]
  have "init_session_state (session (fst (interaction sv w wd))) =
      session (fst (interaction sv w wd))"
    unfolding i using assms by (rule init_after_capture)
  moreover have "if analyze_button w
      then \<exists>results evs. analyze_image_for_words sv photo = (Inr results, evs) \<and>
             session (fst (interaction sv w wd)) =
               (init_session_state (session wd))
                 \<lparr>current_image := Some (Some photo), analyzed_objects := Some results\<rparr>
      else session (fst (interaction sv w wd)) =
             (init_session_state (session wd))\<lparr>current_image := Some (Some photo)\<rparr>"
    unfolding i using a by (simp add: capture_block_state [OF assms])
  ultimately show ?thesis by simp
qed

text \<open>
  The theorem at the session in which photo A was analyzed: capturing photo B changes
  the current image alone, and analyzing photo B, for which the model finds nothing,
  replaces the one object of photo A by the empty list.
\<close>

theorem new_photo_keeps_analysis_until_analyzed_witness:
  "camera_input (capture photo_B) = Some photo_B \<and>
   camera_input (capture_and_analyze photo_B) = Some photo_B \<and>
   session (fst (interaction (scenario (Inr (py ''[]''))) (capture photo_B) analyzed_A)) =
     (session analyzed_A)\<lparr>current_image := Some (Some photo_B)\<rparr> \<and>
   analyzed_objects (session (fst (interaction (scenario (Inr (py ''[]''))) (capture photo_B) analyzed_A))) =
     Some (PyList [key_record]) \<and>
   session (fst (interaction (scenario (Inr (py ''[]''))) (capture_and_analyze photo_B) analyzed_A)) =
     (session analyzed_A)\<lparr>current_image := Some (Some photo_B), analyzed_objects := Some (PyList [])\<rparr>"
proof -
  let ?sv = "scenario (Inr (py ''[]''))"
  note c = capture_simps [of photo_B]
  note i = init_analyzed_A
  have a: "analyzed_objects (session analyzed_A) = Some (PyList [key_record])"
    by (simp add: analyzed_A_def)
  from new_photo_keeps_analysis_until_analyzed [OF c(1), of ?sv analyzed_A] c(2)
  have 1: "session (fst (interaction ?sv (capture photo_B) analyzed_A)) =
      (session analyzed_A)\<lparr>current_image := Some (Some photo_B)\<rparr>"
    by (simp add: i)
  from new_photo_keeps_analysis_until_analyzed [OF c(3), of ?sv analyzed_A] c(4)
  have 2: "session (fst (interaction ?sv (capture_and_analyze photo_B) analyzed_A)) =
      (session analyzed_A)\<lparr>current_image := Some (Some photo_B), analyzed_objects := Some (PyList [])\<rparr>"
    by (simp add: i analyze_photo_B_empty)
  from 1 2 a c(1,3) show ?thesis by simp
qed

text \<open>
  The claim as the specification states it fails: after the analysis of photo A found
  one object, capturing photo B leaves that object in \<open>analyzed_objects\<close>, and the pass
  shows its row under photo B.
\<close>

theorem new_photo_shows_old_analysis:
  "interaction (scenario (Inr (py ''[]''))) (capture_and_analyze photo_A) fresh_world =
     (analyzed_A,
      [St_image photo_A, St_button analyze_label None, Vision_call (Image photo_A),
       St_image photo_A, St_button analyze_label None,
       St_markdown (py ''**key**''), St_markdown [38053, 21273],
       St_button speaker_label (Some (py ''pronounce_key'')), St_markdown (py ''---'')],
      Completed) \<and>
   analyzed_objects (session analyzed_A) = Some (PyList [key_record]) \<and>
   snd (interaction (scenario (Inr (py ''[]''))) (capture photo_B) analyzed_A) =
     ([St_image photo_B, St_button analyze_label None,
       St_markdown (py ''**key**''), St_markdown [38053, 21273],
       St_button speaker_label (Some (py ''pronounce_key'')), St_markdown (py ''---'')],
      Completed) \<and>
   current_image (session (fst (interaction (scenario (Inr (py ''[]''))) (capture photo_B) analyzed_A))) =
     Some (Some photo_B) \<and>
   analyzed_objects (session (fst (interaction (scenario (Inr (py ''[]''))) (capture photo_B) analyzed_A))) =
     Some (PyList [key_record]) \<and>
   analyzed_objects (session (fst (interaction (scenario (Inr (py ''[]''))) (capture photo_B) analyzed_A))) \<noteq>
     Some (PyList [])"
proof -
  let ?sv = "scenario (Inr (py ''[]''))"
  have w: "(capture_and_analyze photo_A)\<lparr>analyze_button := False, pronounce_button := None\<rparr> =
      capture photo_A"
    by (simp add: capture_and_analyze_def capture_def)
  have 1: "interaction ?sv (capture_and_analyze photo_A) fresh_world =
     (analyzed_A,
      [St_image photo_A, St_button analyze_label None, Vision_call (Image photo_A),
       St_image photo_A, St_button analyze_label None,
       St_markdown (py ''**key**''), St_markdown [38053, 21273],
       St_button speaker_label (Some (py ''pronounce_key'')), St_markdown (py ''---'')],
      Completed)"
    by (simp add: interaction_def script_analyze_A w script_show_A)
  have 2: "interaction ?sv (capture photo_B) analyzed_A =
     (analyzed_A\<lparr>session := (session analyzed_A)\<lparr>current_image := Some (Some photo_B)\<rparr>\<rparr>,
      [St_image photo_B, St_button analyze_label None,
       St_markdown (py ''**key**''), St_markdown [38053, 21273],
       St_button speaker_label (Some (py ''pronounce_key'')), St_markdown (py ''---'')],
      Completed)"
    by (simp add: interaction_def script_capture_B)
  have 3: "analyzed_objects (session analyzed_A) = Some (PyList [key_record])"
    by (simp add: analyzed_A_def)
  show ?thesis
    unfolding 1 2 using 3 by simp
qed

subsection \<open>Playback of the stored audio file\<close>








end
